theory Spec2Isabelle
  imports Main "HOL-Library.AList"
begin

section \<open>Stored values\<close>

text \<open>
  The connector (\<^verbatim>\<open>src/mongodb_connector.py\<close>) reads documents of a schemaless store.
  A stored value is null, a boolean, an integer, a string, a native identifier
  (\<^verbatim>\<open>ObjectId\<close>), a native datetime, a sequence or a keyed mapping. An identifier is
  represented by its canonical string form (the 24 lower-case hexadecimal digits that
  \<^verbatim>\<open>str\<close> gives); a mapping keeps its keys in order, as a Python \<^verbatim>\<open>dict\<close> does.
  Floating-point numbers are left out of the value type, and a string is a text of ASCII
  characters.
\<close>

record datetime =
  dt_year :: nat
  dt_month :: nat
  dt_day :: nat
  dt_hour :: nat
  dt_minute :: nat
  dt_second :: nat
  dt_microsecond :: nat

datatype bson =
    BNull
  | BBool bool
  | BInt int
  | BStr string
  | BOid string
  | BDate datetime
  | BList "bson list"
  | BDoc "(string \<times> bson) list"

type_synonym doc = "(string \<times> bson) list"

subsection \<open>Rendering numbers and datetimes\<close>

definition digit_char :: "nat \<Rightarrow> char" where
  "digit_char n = ''0123456789'' ! (n mod 10)"

text \<open>\<^verbatim>\<open>str(n)\<close> of a natural number, and of an integer.\<close>

fun digits :: "nat \<Rightarrow> string" where
  "digits n = (if n < 10 then [digit_char n] else digits (n div 10) @ [digit_char n])"

declare digits.simps [simp del]

definition py_str_int :: "int \<Rightarrow> string" where
  "py_str_int i = (if i < 0 then CHR ''-'' # digits (nat (- i)) else digits (nat i))"

text \<open>The format \<^verbatim>\<open>%0wd\<close>: the last \<open>w\<close> decimal digits, padded with zeros.\<close>

fun zero_pad :: "nat \<Rightarrow> nat \<Rightarrow> string" where
  "zero_pad 0 n = []"
| "zero_pad (Suc w) n = zero_pad w (n div 10) @ [digit_char n]"

text \<open>
  \<^verbatim>\<open>datetime.isoformat(sep)\<close> of a naive datetime: \<^verbatim>\<open>YYYY-MM-DD\<close>, the separator,
  \<^verbatim>\<open>HH:MM:SS\<close>, followed by \<^verbatim>\<open>.ffffff\<close> when the microsecond field is not zero. The
  separator is \<^verbatim>\<open>T\<close> by default; \<^verbatim>\<open>str\<close> of a datetime uses a space.
\<close>

definition isoformat_sep :: "char \<Rightarrow> datetime \<Rightarrow> string" where
  "isoformat_sep sep d =
     zero_pad 4 (dt_year d) @ ''-'' @ zero_pad 2 (dt_month d) @ ''-'' @ zero_pad 2 (dt_day d)
     @ [sep] @ zero_pad 2 (dt_hour d) @ '':'' @ zero_pad 2 (dt_minute d) @ '':''
     @ zero_pad 2 (dt_second d)
     @ (if dt_microsecond d = 0 then [] else ''.'' @ zero_pad 6 (dt_microsecond d))"

definition isoformat :: "datetime \<Rightarrow> string" where
  "isoformat d = isoformat_sep (CHR ''T'') d"

text \<open>A text between apostrophes, as \<^verbatim>\<open>f"'{name}'"\<close> and the \<^verbatim>\<open>repr\<close> of a plain key give it.\<close>

definition quoted :: "string \<Rightarrow> string" where
  "quoted s = CHR 0x27 # s @ [CHR 0x27]"

section \<open>Document normalization\<close>

text \<open>
  \<^verbatim>\<open>serialize_mongo_doc\<close> (lines 43--62): a list is rebuilt from its normalized elements,
  a dict from its keys and normalized values, an identifier becomes \<^verbatim>\<open>str(doc)\<close>, a datetime
  \<^verbatim>\<open>doc.isoformat()\<close>, and anything else is returned as it is. The comprehensions build
  new containers; the argument is only read.
\<close>

fun serialize_mongo_doc :: "bson \<Rightarrow> bson" where
  "serialize_mongo_doc (BList xs) = BList (map serialize_mongo_doc xs)"
| "serialize_mongo_doc (BDoc kvs) =
     BDoc (map (\<lambda>(key, value). (key, serialize_mongo_doc value)) kvs)"
| "serialize_mongo_doc (BOid h) = BStr h"
| "serialize_mongo_doc (BDate d) = BStr (isoformat d)"
| "serialize_mongo_doc v = v"

text \<open>A value is plain when no native identifier and no native datetime occurs in it.\<close>

fun plain :: "bson \<Rightarrow> bool" where
  "plain (BOid h) = False"
| "plain (BDate d) = False"
| "plain (BList xs) = list_all plain xs"
| "plain (BDoc kvs) = list_all (\<lambda>(key, value). plain value) kvs"
| "plain v = True"

text \<open>The structure of a value: where its sequences and mappings are, and under which keys.\<close>

datatype shape = Leaf | Seq "shape list" | Mapping "(string \<times> shape) list"

fun shape_of :: "bson \<Rightarrow> shape" where
  "shape_of (BList xs) = Seq (map shape_of xs)"
| "shape_of (BDoc kvs) = Mapping (map (\<lambda>(key, value). (key, shape_of value)) kvs)"
| "shape_of v = Leaf"

section \<open>Python values and exceptions\<close>

text \<open>
  Truth of a value in a condition (\<^verbatim>\<open>if status:\<close>, \<^verbatim>\<open>if not assignee_id:\<close>): \<^verbatim>\<open>None\<close>,
  \<^verbatim>\<open>False\<close>, \<^verbatim>\<open>0\<close>, the empty string and the empty containers are false.
\<close>

fun truthy :: "bson \<Rightarrow> bool" where
  "truthy BNull = False"
| "truthy (BBool b) = b"
| "truthy (BInt i) = (i \<noteq> 0)"
| "truthy (BStr s) = (s \<noteq> [])"
| "truthy (BList xs) = (xs \<noteq> [])"
| "truthy (BDoc kvs) = (kvs \<noteq> [])"
| "truthy v = True"

text \<open>
  The exceptions the modelled code can meet, each with its message. An
  \<^verbatim>\<open>OperationFailure\<close> carries the message of the store and the text of the store's reply,
  and \<^verbatim>\<open>str\<close> gives both. The operations of the connector catch every exception and
  return \<^verbatim>\<open>{"error": str(e)}\<close>.
\<close>

datatype py_error =
    KeyError string
  | TypeError string
  | ValueError string
  | OverflowError string
  | OperationFailure string string
  | JSONDecodeError string

fun str_exc :: "py_error \<Rightarrow> string" where
  "str_exc (KeyError k) = quoted k"
| "str_exc (TypeError m) = m"
| "str_exc (ValueError m) = m"
| "str_exc (OverflowError m) = m"
| "str_exc (OperationFailure m reply) = m @ '', full error: '' @ reply"
| "str_exc (JSONDecodeError m) = m"

text \<open>\<^verbatim>\<open>d[k]\<close> on a dict: the value, or \<^verbatim>\<open>KeyError\<close>.\<close>

definition subscript :: "doc \<Rightarrow> string \<Rightarrow> py_error + bson" where
  "subscript d k = (case map_of d k of None \<Rightarrow> Inl (KeyError k) | Some v \<Rightarrow> Inr v)"

text \<open>\<^verbatim>\<open>[d[k] for d in ds]\<close>: the first missing key raises.\<close>

fun subscript_all :: "doc list \<Rightarrow> string \<Rightarrow> py_error + bson list" where
  "subscript_all [] k = Inr []"
| "subscript_all (d # ds) k =
     (case subscript d k of
        Inl e \<Rightarrow> Inl e
      | Inr v \<Rightarrow> (case subscript_all ds k of Inl e \<Rightarrow> Inl e | Inr vs \<Rightarrow> Inr (v # vs)))"

text \<open>
  \<^verbatim>\<open>str(x)\<close> of a scalar. The connector applies it to members of a set after
  normalization, which are scalars; a container never reaches it and is given the empty
  string here.
\<close>

fun py_str :: "bson \<Rightarrow> string" where
  "py_str BNull = ''None''"
| "py_str (BBool b) = (if b then ''True'' else ''False'')"
| "py_str (BInt i) = py_str_int i"
| "py_str (BStr s) = s"
| "py_str (BOid h) = h"
| "py_str (BDate d) = isoformat_sep (CHR '' '') d"
| "py_str v = []"

subsection \<open>Strings without regard to case\<close>

text \<open>
  A string is a list of characters; the letters are the letters \<^verbatim>\<open>A\<close> to \<^verbatim>\<open>Z\<close> and
  \<^verbatim>\<open>a\<close> to \<^verbatim>\<open>z\<close>. \<open>contains_ci t s\<close>: the text \<open>t\<close> occurs in \<open>s\<close>, letters compared without
  regard to case.
\<close>

definition to_lower :: "char \<Rightarrow> char" where
  "to_lower c =
     (case map_of (zip ''ABCDEFGHIJKLMNOPQRSTUVWXYZ'' ''abcdefghijklmnopqrstuvwxyz'') c of
        None \<Rightarrow> c | Some l \<Rightarrow> l)"

fun starts_with_ci :: "string \<Rightarrow> string \<Rightarrow> bool" where
  "starts_with_ci [] s = True"
| "starts_with_ci (p # ps) [] = False"
| "starts_with_ci (p # ps) (c # cs) = (to_lower p = to_lower c \<and> starts_with_ci ps cs)"

fun contains_ci :: "string \<Rightarrow> string \<Rightarrow> bool" where
  "contains_ci p [] = starts_with_ci p []"
| "contains_ci p (c # cs) = (starts_with_ci p (c # cs) \<or> contains_ci p cs)"

subsection \<open>Identifiers\<close>

definition is_hex :: "char \<Rightarrow> bool" where
  "is_hex c = (c \<in> set ''0123456789abcdefABCDEF'')"

definition is_space :: "char \<Rightarrow> bool" where
  "is_space c = (c \<in> set [CHR '' '', CHR 0x09, CHR 0x0A, CHR 0x0B, CHR 0x0C, CHR 0x0D])"

text \<open>
  \<^verbatim>\<open>bytes.fromhex(s)\<close> reads pairs of hexadecimal digits and passes over white space
  before a pair and at the end; anything else raises.
\<close>

fun fromhex_ok :: "string \<Rightarrow> bool" where
  "fromhex_ok [] = True"
| "fromhex_ok [c] = is_space c"
| "fromhex_ok (c # d # rest) =
     (if is_space c then fromhex_ok (d # rest) else is_hex c \<and> is_hex d \<and> fromhex_ok rest)"

text \<open>
  \<^verbatim>\<open>ObjectId.is_valid(s)\<close> on a string: the string has 24 characters and \<^verbatim>\<open>bytes.fromhex\<close>
  reads it. \<^verbatim>\<open>ObjectId(s)\<close> of such a string is the identifier of the bytes read; its
  canonical form is the digits of \<open>s\<close> in lower case. A string of 24 hexadecimal digits
  gives the twelve bytes of an identifier. With white space in the string the bytes are
  fewer than twelve; \<^verbatim>\<open>is_valid\<close> accepts the string all the same, and \<^verbatim>\<open>str\<close> gives the
  digits that were read. What the driver sends to the store for such an identifier is not
  defined by the library, so the statements about filters are made for arguments without
  white space (\<open>no_white_space\<close> below).
\<close>

definition ObjectId_is_valid :: "string \<Rightarrow> bool" where
  "ObjectId_is_valid s = (length s = 24 \<and> fromhex_ok s)"

definition ObjectId :: "string \<Rightarrow> bson" where
  "ObjectId s = BOid (map to_lower (filter (\<lambda>c. \<not> is_space c) s))"

text \<open>
  \<^verbatim>\<open>ObjectId(x) if ObjectId.is_valid(x) else x\<close>, the conversion of an identifier filter
  (lines 103, 105, 156, 158, 229).
\<close>

definition as_identifier :: "string \<Rightarrow> bson" where
  "as_identifier x = (if ObjectId_is_valid x then ObjectId x else BStr x)"

subsection \<open>Sets of hashable values\<close>

text \<open>
  A Python set holds hashable values, and a list or a dict is not hashable. Members are
  compared with \<^verbatim>\<open>==\<close>, under which \<^verbatim>\<open>True\<close> is \<^verbatim>\<open>1\<close> and \<^verbatim>\<open>False\<close> is \<^verbatim>\<open>0\<close>; the first
  of two equal values stays. A set is represented by its members in the order in which
  they were inserted; the order in which \<^verbatim>\<open>list(s)\<close> lists them is another one (see
  \<open>listed\<close> below).
\<close>

fun hashable :: "bson \<Rightarrow> bool" where
  "hashable (BList xs) = False"
| "hashable (BDoc kvs) = False"
| "hashable v = True"

fun unhashable_message :: "bson \<Rightarrow> string" where
  "unhashable_message (BDoc kvs) = ''unhashable type: '' @ quoted ''dict''"
| "unhashable_message v = ''unhashable type: '' @ quoted ''list''"

fun py_key :: "bson \<Rightarrow> bson" where
  "py_key (BBool b) = BInt (if b then 1 else 0)"
| "py_key v = v"

definition set_add :: "bson list \<Rightarrow> bson \<Rightarrow> bson list" where
  "set_add members x = (if list_ex (\<lambda>y. py_key y = py_key x) members then members else members @ [x])"

section \<open>The store\<close>

text \<open>
  The store is the \<^verbatim>\<open>pymongo\<close> database the connector holds: its collections by name, each
  a list of documents in the store's own order. The store gives every document an
  \<^verbatim>\<open>_id\<close>, so a stored document is its \<^verbatim>\<open>_id\<close> and its other fields, and the dict that a
  query returns has the key \<^verbatim>\<open>_id\<close> first.

  Two things that the repository does not decide are components of the record, and the
  theorems hold for every choice of them.
  \<^item> \<open>regex_engine db p opts\<close> is the store's answer to \<^verbatim>\<open>{"$regex": p, "$options": opts}\<close>
    for a pattern with special characters: \<open>Inl (m, reply)\<close> when the store rejects the
    pattern, with the store's message and the text of its reply, and otherwise \<open>Inr f\<close>,
    where \<open>f s\<close> tells whether the pattern finds a match in \<open>s\<close>.
  \<^item> \<open>set_rank db members x\<close> is the place that the Python process gives the member \<open>x\<close>
    when it lists the set of these members: \<^verbatim>\<open>list(s)\<close> lists a set by the hashes of its
    members, each member once.

  All operations only read the store. A store that cannot be reached is not modelled.
\<close>

record store =
  collections :: "(string \<times> (bson \<times> doc) list) list"
  regex_engine :: "string \<Rightarrow> string \<Rightarrow> (string \<times> string) + (string \<Rightarrow> bool)"
  set_rank :: "bson list \<Rightarrow> bson \<Rightarrow> nat"

definition list_collection_names :: "store \<Rightarrow> string list" where
  "list_collection_names db = map fst (collections db)"

text \<open>\<^verbatim>\<open>db[name]\<close>: a collection that does not exist has no documents.\<close>

definition coll :: "store \<Rightarrow> string \<Rightarrow> doc list" where
  "coll db name =
     (case map_of (collections db) name of
        None \<Rightarrow> []
      | Some ds \<Rightarrow> map (\<lambda>(i, fields). (''_id'', i) # fields) ds)"

text \<open>\<^verbatim>\<open>list(s)\<close> of a set with the given members.\<close>

definition listed :: "store \<Rightarrow> bson list \<Rightarrow> bson list" where
  "listed db members = sort_key (set_rank db members) members"

subsection \<open>Patterns\<close>

text \<open>
  In a pattern every letter, digit, space, underscore, hyphen, slash, colon and comma stands
  for itself. A pattern of such characters, with the option \<^verbatim>\<open>i\<close>, finds a match in a string
  exactly when it occurs in the string, letters compared without regard to case. The store
  limits the length of a pattern; it accepts every pattern of at most 1000 such characters.
  On any other pattern, and with other options, the store's engine decides.
\<close>

definition literal_char :: "char \<Rightarrow> bool" where
  "literal_char c =
     (c \<in> set ''abcdefghijklmnopqrstuvwxyzABCDEFGHIJKLMNOPQRSTUVWXYZ0123456789 _-/:,'')"

definition plain_pattern :: "string \<Rightarrow> bool" where
  "plain_pattern p = (length p \<le> 1000 \<and> list_all literal_char p)"

definition regex_search ::
  "store \<Rightarrow> string \<Rightarrow> string \<Rightarrow> (string \<times> string) + (string \<Rightarrow> bool)" where
  "regex_search db p opts =
     (if opts = ''i'' \<and> plain_pattern p then Inr (contains_ci p) else regex_engine db p opts)"

subsection \<open>Filters\<close>

text \<open>
  The filters the connector builds: a dict of field conditions (all must hold), \<^verbatim>\<open>$and\<close>
  and \<^verbatim>\<open>$or\<close> of filters. A field condition is an equality with a value, \<^verbatim>\<open>$in\<close> with a
  list of values, or \<^verbatim>\<open>$regex\<close> with a pattern and \<^verbatim>\<open>$options\<close>.
\<close>

datatype cond = CEq bson | CIn "bson list" | CRegex string string

datatype query = QFields "(string \<times> cond) list" | QAnd "query list" | QOr "query list"

text \<open>
  Equality of a field with a value, as the store decides it: a missing field equals only
  null; a sequence equals the value when it is the value or one of its members is.
\<close>

fun eq_match :: "bson option \<Rightarrow> bson \<Rightarrow> bool" where
  "eq_match None v = (v = BNull)"
| "eq_match (Some (BList xs)) v = (BList xs = v \<or> list_ex (\<lambda>x. x = v) xs)"
| "eq_match (Some x) v = (x = v)"

text \<open>A pattern is matched against a string field, or against the strings of a sequence.\<close>

fun is_match :: "(string \<Rightarrow> bool) \<Rightarrow> bson \<Rightarrow> bool" where
  "is_match f (BStr s) = f s"
| "is_match f v = False"

fun regex_match :: "(string \<Rightarrow> bool) \<Rightarrow> bson option \<Rightarrow> bool" where
  "regex_match f (Some (BList xs)) = list_ex (is_match f) xs"
| "regex_match f (Some x) = is_match f x"
| "regex_match f None = False"

fun cond_holds ::
  "(string \<Rightarrow> string \<Rightarrow> (string \<times> string) + (string \<Rightarrow> bool)) \<Rightarrow> cond \<Rightarrow> bson option \<Rightarrow> bool" where
  "cond_holds eng (CEq v) x = eq_match x v"
| "cond_holds eng (CIn vs) x = list_ex (eq_match x) vs"
| "cond_holds eng (CRegex p opts) x =
     (case eng p opts of Inl e \<Rightarrow> False | Inr f \<Rightarrow> regex_match f x)"

fun matches ::
  "(string \<Rightarrow> string \<Rightarrow> (string \<times> string) + (string \<Rightarrow> bool)) \<Rightarrow> query \<Rightarrow> doc \<Rightarrow> bool" where
  "matches eng (QFields kcs) d = list_all (\<lambda>(k, c). cond_holds eng c (map_of d k)) kcs"
| "matches eng (QAnd qs) d = list_all (\<lambda>q. matches eng q d) qs"
| "matches eng (QOr qs) d = list_ex (\<lambda>q. matches eng q d) qs"

text \<open>The answers of the store to the patterns of a filter that it rejects.\<close>

fun cond_error ::
  "(string \<Rightarrow> string \<Rightarrow> (string \<times> string) + (string \<Rightarrow> bool)) \<Rightarrow> cond \<Rightarrow> (string \<times> string) option" where
  "cond_error eng (CRegex p opts) = (case eng p opts of Inl e \<Rightarrow> Some e | Inr f \<Rightarrow> None)"
| "cond_error eng c = None"

fun query_errors ::
  "(string \<Rightarrow> string \<Rightarrow> (string \<times> string) + (string \<Rightarrow> bool)) \<Rightarrow> query \<Rightarrow> (string \<times> string) list" where
  "query_errors eng (QFields kcs) = List.map_filter (\<lambda>(k, c). cond_error eng c) kcs"
| "query_errors eng (QAnd qs) = concat (map (query_errors eng) qs)"
| "query_errors eng (QOr qs) = concat (map (query_errors eng) qs)"

subsection \<open>Reading a collection\<close>

text \<open>
  \<^verbatim>\<open>list(db[c].find(q))\<close>: the documents of the collection that match, in the store's order;
  the store fails on a filter with a pattern it rejects.
\<close>

definition find_docs :: "store \<Rightarrow> string \<Rightarrow> query \<Rightarrow> py_error + doc list" where
  "find_docs db c q =
     (case query_errors (regex_search db) q of
        [] \<Rightarrow> Inr (filter (matches (regex_search db) q) (coll db c))
      | e # es \<Rightarrow> Inl (OperationFailure (fst e) (snd e)))"

text \<open>\<^verbatim>\<open>db[c].find_one(q)\<close>: the first match, or \<^verbatim>\<open>None\<close>.\<close>

definition find_one :: "store \<Rightarrow> string \<Rightarrow> query \<Rightarrow> py_error + doc option" where
  "find_one db c q =
     (case find_docs db c q of
        Inl e \<Rightarrow> Inl e
      | Inr ds \<Rightarrow> Inr (case ds of [] \<Rightarrow> None | d # rest \<Rightarrow> Some d))"

definition count_documents :: "store \<Rightarrow> string \<Rightarrow> query \<Rightarrow> py_error + nat" where
  "count_documents db c q =
     (case find_docs db c q of Inl e \<Rightarrow> Inl e | Inr ds \<Rightarrow> Inr (length ds))"

text \<open>
  A cursor's \<^verbatim>\<open>limit(n)\<close>: the limit 0 is no limit, and a negative limit is read as its
  absolute value (the store then answers in one batch; the documents of the examples fit
  in one).
\<close>

definition limit_docs :: "int \<Rightarrow> doc list \<Rightarrow> doc list" where
  "limit_docs n ds = (if n = 0 then ds else take (nat \<bar>n\<bar>) ds)"

text \<open>
  \<^verbatim>\<open>list(db[c].find(q).skip(skip).limit(limit))\<close>: \<^verbatim>\<open>skip\<close> raises \<^verbatim>\<open>ValueError\<close> on a
  negative number. The skip and the absolute value of the limit are sent to the store as
  integers of at most eight bytes; a greater number raises \<^verbatim>\<open>OverflowError\<close> when the
  request is written, before the store is asked.
\<close>

definition find_page :: "store \<Rightarrow> string \<Rightarrow> query \<Rightarrow> int \<Rightarrow> int \<Rightarrow> py_error + doc list" where
  "find_page db c q skip limit =
     (if skip < 0 then Inl (ValueError ''skip must be >= 0'')
      else if 2 ^ 63 \<le> skip \<or> 2 ^ 63 \<le> \<bar>limit\<bar>
      then Inl (OverflowError ''MongoDB can only handle up to 8-byte ints'')
      else (case find_docs db c q of
              Inl e \<Rightarrow> Inl e
            | Inr ds \<Rightarrow> Inr (limit_docs limit (drop (nat skip) ds))))"

text \<open>A projection \<^verbatim>\<open>{key: 1}\<close> keeps the field \<^verbatim>\<open>_id\<close> and the named field.\<close>

definition project_field :: "string \<Rightarrow> doc \<Rightarrow> doc" where
  "project_field key d = filter (\<lambda>(k, v). k = ''_id'' \<or> k = key) d"

text \<open>
  \<^verbatim>\<open>db[c].distinct(key, q)\<close>: the different values of a top-level field over the matching
  documents, the members of a sequence counted one by one.
\<close>

fun field_values :: "bson option \<Rightarrow> bson list" where
  "field_values None = []"
| "field_values (Some (BList xs)) = xs"
| "field_values (Some x) = [x]"

definition distinct_values :: "store \<Rightarrow> string \<Rightarrow> string \<Rightarrow> query \<Rightarrow> py_error + bson list" where
  "distinct_values db c key q =
     (case find_docs db c q of
        Inl e \<Rightarrow> Inl e
      | Inr ds \<Rightarrow> Inr (remdups (concat (map (\<lambda>d. field_values (map_of d key)) ds))))"

section \<open>The connector's operations\<close>

text \<open>
  Every operation returns a dict. The dicts have eight forms, one per constructor:
  \<^verbatim>\<open>{"error": m}\<close>, the page of issues with \<^verbatim>\<open>page\<close>, \<^verbatim>\<open>page_size\<close> and \<^verbatim>\<open>total_count\<close>,
  \<^verbatim>\<open>{"count": n}\<close>, \<^verbatim>\<open>{"unique_values": vs}\<close>, \<^verbatim>\<open>{"assignees": as, "count": n}\<close>, the
  details of an issue (\<^verbatim>\<open>issue\<close>, \<^verbatim>\<open>comments\<close>, \<^verbatim>\<open>events\<close>, \<^verbatim>\<open>linked_commits\<close>),
  \<^verbatim>\<open>{"comments": cs}\<close>, and \<^verbatim>\<open>{"recommendations": rs, "total_candidates": n}\<close>.
\<close>

record recommendation =
  developer_id :: string
  developer_name :: string
  expertise_score :: nat
  component_experience :: nat
  keyword_experience :: nat
  resolved_issues :: nat

datatype result =
    Error string
  | IssuesPage bson int int nat
  | Count nat
  | UniqueValues bson
  | Assignees bson nat
  | IssueDetails bson bson bson bson
  | Comments bson
  | Expertise "recommendation list" nat

text \<open>\<^verbatim>\<open>try: ... except Exception as e: return {"error": str(e)}\<close>\<close>

fun catch :: "py_error + result \<Rightarrow> result" where
  "catch (Inl e) = Error (str_exc e)"
| "catch (Inr r) = r"

definition project_not_found :: "string \<Rightarrow> string" where
  "project_not_found project_name = ''Project '' @ quoted project_name @ '' not found.''"

text \<open>
  The first lines of the three project-scoped operations (84--91, 138--144, 210--217):
  the project is looked up by its name; \<open>None\<close> stands for the branch \<^verbatim>\<open>if not project\<close>;
  otherwise the identifiers of the issue systems whose \<^verbatim>\<open>project_id\<close> is the project's
  \<^verbatim>\<open>_id\<close> are collected.
\<close>

definition project_issue_system_ids :: "store \<Rightarrow> string \<Rightarrow> py_error + bson list option" where
  "project_issue_system_ids db project_name =
     (case find_one db ''project'' (QFields [(''name'', CEq (BStr project_name))]) of
        Inl e \<Rightarrow> Inl e
      | Inr None \<Rightarrow> Inr None
      | Inr (Some project) \<Rightarrow>
          if project = [] then Inr None
          else (case subscript project ''_id'' of
                  Inl e \<Rightarrow> Inl e
                | Inr pid \<Rightarrow>
                   (case find_docs db ''issue_system'' (QFields [(''project_id'', CEq pid)]) of
                      Inl e \<Rightarrow> Inl e
                    | Inr issue_systems \<Rightarrow>
                       (case subscript_all issue_systems ''_id'' of
                          Inl e \<Rightarrow> Inl e
                        | Inr issue_system_ids \<Rightarrow> Inr (Some issue_system_ids)))))"

text \<open>
  An optional string argument (\<^verbatim>\<open>status=None\<close>) is a \<open>string option\<close>.
  \<^verbatim>\<open>if arg: query[key] = conv(arg)\<close>: the entry is made when the argument is given and is
  not the empty string.
\<close>

definition put_filter ::
  "string \<Rightarrow> string option \<Rightarrow> (string \<Rightarrow> bson) \<Rightarrow> (string \<times> cond) list \<Rightarrow> (string \<times> cond) list" where
  "put_filter key arg conv query =
     (case arg of
        None \<Rightarrow> query
      | Some x \<Rightarrow> if x = [] then query else AList.update key (CEq (conv x)) query)"

text \<open>The filter of \<^verbatim>\<open>fetch_project_issues\<close> (lines 94--105).\<close>

definition fetch_query ::
  "bson list \<Rightarrow> string option \<Rightarrow> string option \<Rightarrow> string option \<Rightarrow> string option \<Rightarrow> string option
     \<Rightarrow> (string \<times> cond) list" where
  "fetch_query issue_system_ids status priority issue_type assignee_id reporter_id =
     (let query = [(''issue_system_id'', CIn issue_system_ids)];
          query = put_filter ''status'' status BStr query;
          query = put_filter ''priority'' priority BStr query;
          query = put_filter ''issue_type'' issue_type BStr query;
          query = put_filter ''assignee_id'' assignee_id as_identifier query;
          query = put_filter ''reporter_id'' reporter_id as_identifier query
      in query)"

definition fetch_project_issues ::
  "store \<Rightarrow> string \<Rightarrow> string option \<Rightarrow> string option \<Rightarrow> string option \<Rightarrow> string option
     \<Rightarrow> string option \<Rightarrow> int \<Rightarrow> int \<Rightarrow> result" where
  "fetch_project_issues db project_name status priority issue_type assignee_id reporter_id
       page page_size =
     catch
      (case project_issue_system_ids db project_name of
         Inl e \<Rightarrow> Inl e
       | Inr None \<Rightarrow> Inr (Error (project_not_found project_name))
       | Inr (Some issue_system_ids) \<Rightarrow>
          (let query = QFields (fetch_query issue_system_ids status priority issue_type
                                  assignee_id reporter_id);
               skip = (page - 1) * page_size
           in case find_page db ''issue'' query skip page_size of
                Inl e \<Rightarrow> Inl e
              | Inr issues \<Rightarrow>
                 (case count_documents db ''issue'' query of
                    Inl e \<Rightarrow> Inl e
                  | Inr total_count \<Rightarrow>
                     Inr (IssuesPage (serialize_mongo_doc (BList (map BDoc issues)))
                            page page_size total_count))))"

text \<open>The filter of \<^verbatim>\<open>count_issues\<close> (lines 147--158).\<close>

definition count_query ::
  "bson list \<Rightarrow> string option \<Rightarrow> string option \<Rightarrow> string option \<Rightarrow> string option \<Rightarrow> string option
     \<Rightarrow> (string \<times> cond) list" where
  "count_query issue_system_ids status priority issue_type assignee_id reporter_id =
     (let query = [(''issue_system_id'', CIn issue_system_ids)];
          query = put_filter ''status'' status BStr query;
          query = put_filter ''priority'' priority BStr query;
          query = put_filter ''issue_type'' issue_type BStr query;
          query = put_filter ''assignee_id'' assignee_id as_identifier query;
          query = put_filter ''reporter_id'' reporter_id as_identifier query
      in query)"

definition count_issues ::
  "store \<Rightarrow> string \<Rightarrow> string option \<Rightarrow> string option \<Rightarrow> string option \<Rightarrow> string option
     \<Rightarrow> string option \<Rightarrow> result" where
  "count_issues db project_name status priority issue_type assignee_id reporter_id =
     catch
      (case project_issue_system_ids db project_name of
         Inl e \<Rightarrow> Inl e
       | Inr None \<Rightarrow> Inr (Error (project_not_found project_name))
       | Inr (Some issue_system_ids) \<Rightarrow>
          (let query = QFields (count_query issue_system_ids status priority issue_type
                                  assignee_id reporter_id)
           in case count_documents db ''issue'' query of
                Inl e \<Rightarrow> Inl e
              | Inr count \<Rightarrow> Inr (Count count)))"

text \<open>
  \<^verbatim>\<open>list_unique_values\<close> (lines 179--192). The optional filter is one of the filters above;
  \<^verbatim>\<open>None\<close> and the empty dict both give the filter that every document matches.
\<close>

definition list_unique_values :: "store \<Rightarrow> string \<Rightarrow> string \<Rightarrow> query option \<Rightarrow> result" where
  "list_unique_values db collection_name attribute_name filters =
     catch
      (if collection_name \<notin> set (list_collection_names db)
       then Inr (Error (''Collection '' @ quoted collection_name @ '' does not exist.''))
       else (let query = (case filters of None \<Rightarrow> QFields [] | Some q \<Rightarrow> q)
             in case distinct_values db collection_name attribute_name query of
                  Inl e \<Rightarrow> Inl e
                | Inr unique_values \<Rightarrow>
                    Inr (UniqueValues (serialize_mongo_doc (BList unique_values)))))"

text \<open>The filter of \<^verbatim>\<open>get_project_assignees\<close> (lines 220--229); it has no assignee filter.\<close>

definition assignees_query ::
  "bson list \<Rightarrow> string option \<Rightarrow> string option \<Rightarrow> string option \<Rightarrow> string option
     \<Rightarrow> (string \<times> cond) list" where
  "assignees_query issue_system_ids status priority issue_type reporter_id =
     (let query = [(''issue_system_id'', CIn issue_system_ids)];
          query = put_filter ''status'' status BStr query;
          query = put_filter ''priority'' priority BStr query;
          query = put_filter ''issue_type'' issue_type BStr query;
          query = put_filter ''reporter_id'' reporter_id as_identifier query
      in query)"

text \<open>
  \<^verbatim>\<open>{issue["assignee_id"] for issue in issues if "assignee_id" in issue}\<close> (line 235): an
  issue without the field is passed over, a value that is not hashable raises.
\<close>

fun assignee_id_set :: "doc list \<Rightarrow> bson list \<Rightarrow> py_error + bson list" where
  "assignee_id_set [] members = Inr members"
| "assignee_id_set (issue # issues) members =
     (case map_of issue ''assignee_id'' of
        None \<Rightarrow> assignee_id_set issues members
      | Some v \<Rightarrow>
          if hashable v then assignee_id_set issues (set_add members v)
          else Inl (TypeError (unhashable_message v)))"

definition get_project_assignees ::
  "store \<Rightarrow> string \<Rightarrow> string option \<Rightarrow> string option \<Rightarrow> string option \<Rightarrow> string option \<Rightarrow> result" where
  "get_project_assignees db project_name status priority issue_type reporter_id =
     catch
      (case project_issue_system_ids db project_name of
         Inl e \<Rightarrow> Inl e
       | Inr None \<Rightarrow> Inr (Error (project_not_found project_name))
       | Inr (Some issue_system_ids) \<Rightarrow>
          (let query = QFields (assignees_query issue_system_ids status priority issue_type
                                  reporter_id)
           in case find_docs db ''issue'' query of
                Inl e \<Rightarrow> Inl e
              | Inr found \<Rightarrow>
                 (let issues = map (project_field ''assignee_id'') found
                  in case assignee_id_set issues [] of
                       Inl e \<Rightarrow> Inl e
                     | Inr members \<Rightarrow>
                        (let assignee_ids = listed db members
                         in Inr (Assignees (serialize_mongo_doc (BList assignee_ids))
                                   (length assignee_ids))))))"

text \<open>\<^verbatim>\<open>get_issue_details\<close> (lines 251--278): the issue is looked up by its \<^verbatim>\<open>external_id\<close>.\<close>

definition issue_not_found :: "string \<Rightarrow> string" where
  "issue_not_found issue_identifier = ''Issue matching '' @ quoted issue_identifier @ '' not found.''"

definition issue_with_references :: "store \<Rightarrow> doc \<Rightarrow> py_error + result" where
  "issue_with_references db issue =
     (case subscript issue ''_id'' of
        Inl e \<Rightarrow> Inl e
      | Inr issue_id \<Rightarrow>
         (case find_docs db ''issue_comment'' (QFields [(''issue_id'', CEq issue_id)]) of
            Inl e \<Rightarrow> Inl e
          | Inr comments \<Rightarrow>
             (case find_docs db ''event'' (QFields [(''issue_id'', CEq issue_id)]) of
                Inl e \<Rightarrow> Inl e
              | Inr events \<Rightarrow>
                 (case find_docs db ''commit'' (QFields [(''linked_issue_ids'', CEq issue_id)]) of
                    Inl e \<Rightarrow> Inl e
                  | Inr linked_commits \<Rightarrow>
                      Inr (IssueDetails
                             (serialize_mongo_doc (BDoc issue))
                             (serialize_mongo_doc (BList (map BDoc comments)))
                             (serialize_mongo_doc (BList (map BDoc events)))
                             (serialize_mongo_doc (BList (map BDoc linked_commits))))))))"

definition get_issue_details :: "store \<Rightarrow> string \<Rightarrow> result" where
  "get_issue_details db issue_identifier =
     catch
      (case find_one db ''issue'' (QFields [(''external_id'', CEq (BStr issue_identifier))]) of
         Inl e \<Rightarrow> Inl e
       | Inr None \<Rightarrow> Inr (Error (issue_not_found issue_identifier))
       | Inr (Some issue) \<Rightarrow>
           if issue = [] then Inr (Error (issue_not_found issue_identifier))
           else issue_with_references db issue)"

text \<open>\<^verbatim>\<open>get_issue_comments\<close> (lines 290--294): the argument is the filter value as it comes.\<close>

definition get_issue_comments :: "store \<Rightarrow> string \<Rightarrow> result" where
  "get_issue_comments db issue_id =
     catch
      (case find_docs db ''issue_comment'' (QFields [(''issue_id'', CEq (BStr issue_id))]) of
         Inl e \<Rightarrow> Inl e
       | Inr comments \<Rightarrow> Inr (Comments (serialize_mongo_doc (BList (map BDoc comments)))))"

section \<open>Expertise scoring\<close>

text \<open>\<^verbatim>\<open>_get_issue_system_ids\<close> (lines 412--419): the empty list when the project is not found.\<close>

definition get_issue_system_ids :: "store \<Rightarrow> string \<Rightarrow> py_error + bson list" where
  "get_issue_system_ids db project_name =
     (case find_one db ''project'' (QFields [(''name'', CEq (BStr project_name))]) of
        Inl e \<Rightarrow> Inl e
      | Inr None \<Rightarrow> Inr []
      | Inr (Some project) \<Rightarrow>
          if project = [] then Inr []
          else (case subscript project ''_id'' of
                  Inl e \<Rightarrow> Inl e
                | Inr pid \<Rightarrow>
                   (case find_docs db ''issue_system'' (QFields [(''project_id'', CEq pid)]) of
                      Inl e \<Rightarrow> Inl e
                    | Inr issue_systems \<Rightarrow> subscript_all issue_systems ''_id'')))"

text \<open>The three filters of the loop body (lines 336--343, 350--357, 362--366).\<close>

definition component_query :: "bson list \<Rightarrow> bson \<Rightarrow> string \<Rightarrow> query" where
  "component_query issue_system_ids assignee_id component =
     QAnd [QFields [(''issue_system_id'', CIn issue_system_ids)],
           QFields [(''assignee_id'', CEq assignee_id)],
           QOr [QFields [(''component'', CRegex component ''i'')],
                QFields [(''title'', CRegex component ''i'')]]]"

definition keyword_query :: "bson list \<Rightarrow> bson \<Rightarrow> string \<Rightarrow> query" where
  "keyword_query issue_system_ids assignee_id keywords =
     QAnd [QFields [(''issue_system_id'', CIn issue_system_ids)],
           QFields [(''assignee_id'', CEq assignee_id)],
           QOr [QFields [(''title'', CRegex keywords ''i'')],
                QFields [(''desc'', CRegex keywords ''i'')]]]"

definition resolved_query :: "bson list \<Rightarrow> bson \<Rightarrow> query" where
  "resolved_query issue_system_ids assignee_id =
     QAnd [QFields [(''issue_system_id'', CIn issue_system_ids)],
           QFields [(''assignee_id'', CEq assignee_id)],
           QFields [(''status'', CEq (BStr ''Resolved''))]]"

text \<open>
  The counts of one candidate (lines 327--368). A count is asked of the store only when
  its argument passes \<^verbatim>\<open>if component:\<close> or \<^verbatim>\<open>if keywords:\<close>; each filter resolves the
  project's issue systems again.
\<close>

definition component_count :: "store \<Rightarrow> string \<Rightarrow> string option \<Rightarrow> bson \<Rightarrow> py_error + nat" where
  "component_count db project_name component assignee_id =
     (case component of
        None \<Rightarrow> Inr 0
      | Some c \<Rightarrow>
          if c = [] then Inr 0
          else (case get_issue_system_ids db project_name of
                  Inl e \<Rightarrow> Inl e
                | Inr ids \<Rightarrow> count_documents db ''issue'' (component_query ids assignee_id c)))"

definition keyword_count :: "store \<Rightarrow> string \<Rightarrow> string option \<Rightarrow> bson \<Rightarrow> py_error + nat" where
  "keyword_count db project_name keywords assignee_id =
     (case keywords of
        None \<Rightarrow> Inr 0
      | Some k \<Rightarrow>
          if k = [] then Inr 0
          else (case get_issue_system_ids db project_name of
                  Inl e \<Rightarrow> Inl e
                | Inr ids \<Rightarrow> count_documents db ''issue'' (keyword_query ids assignee_id k)))"

definition resolved_count :: "store \<Rightarrow> string \<Rightarrow> bson \<Rightarrow> py_error + nat" where
  "resolved_count db project_name assignee_id =
     (case get_issue_system_ids db project_name of
        Inl e \<Rightarrow> Inl e
      | Inr ids \<Rightarrow> count_documents db ''issue'' (resolved_query ids assignee_id))"

definition expertise_counts ::
  "store \<Rightarrow> string \<Rightarrow> string option \<Rightarrow> string option \<Rightarrow> bson \<Rightarrow> py_error + (nat \<times> nat \<times> nat)" where
  "expertise_counts db project_name component keywords assignee_id =
     (case component_count db project_name component assignee_id of
        Inl e \<Rightarrow> Inl e
      | Inr c \<Rightarrow>
         (case keyword_count db project_name keywords assignee_id of
            Inl e \<Rightarrow> Inl e
          | Inr k \<Rightarrow>
             (case resolved_count db project_name assignee_id of
                Inl e \<Rightarrow> Inl e
              | Inr r \<Rightarrow> Inr (c, k, r))))"

text \<open>
  The display name (line 377): the last four characters of a string, \<^verbatim>\<open>str\<close> of anything
  else. The entry appended to the recommendations (lines 372, 379--386).
\<close>

fun developer_name_of :: "bson \<Rightarrow> string" where
  "developer_name_of (BStr s) = ''Dev-'' @ drop (length s - 4) s"
| "developer_name_of v = ''Dev-'' @ py_str v"

definition make_recommendation :: "bson \<Rightarrow> nat \<Rightarrow> nat \<Rightarrow> nat \<Rightarrow> recommendation" where
  "make_recommendation assignee_id c k r =
     \<lparr> developer_id = py_str assignee_id,
       developer_name = developer_name_of assignee_id,
       expertise_score = c * 2 + k + r,
       component_experience = c,
       keyword_experience = k,
       resolved_issues = r \<rparr>"

text \<open>The loop over the candidates (lines 321--386); an exception ends it.\<close>

fun expertise_loop ::
  "store \<Rightarrow> string \<Rightarrow> string option \<Rightarrow> string option \<Rightarrow> bson list \<Rightarrow> recommendation list
     \<Rightarrow> py_error + recommendation list" where
  "expertise_loop db project_name component keywords [] recommendations = Inr recommendations"
| "expertise_loop db project_name component keywords (assignee_id # rest) recommendations =
     (if \<not> truthy assignee_id
      then expertise_loop db project_name component keywords rest recommendations
      else (case expertise_counts db project_name component keywords assignee_id of
              Inl e \<Rightarrow> Inl e
            | Inr (c, k, r) \<Rightarrow>
                if c * 2 + k + r > 0
                then expertise_loop db project_name component keywords rest
                       (recommendations @ [make_recommendation assignee_id c k r])
                else expertise_loop db project_name component keywords rest recommendations))"

text \<open>
  \<^verbatim>\<open>recommendations.sort(key=..., reverse=True)\<close> (line 389): a stable sort, highest score
  first, entries of equal score in the order they had. Then the first three (line 392).
\<close>

definition sort_by_score :: "recommendation list \<Rightarrow> recommendation list" where
  "sort_by_score recommendations = sort_key (\<lambda>x. - int (expertise_score x)) recommendations"

definition top_recommendations :: "recommendation list \<Rightarrow> recommendation list" where
  "top_recommendations recommendations =
     (if length recommendations \<ge> 3 then take 3 recommendations else recommendations)"

text \<open>\<^verbatim>\<open>assignees_result.get("assignees", [])\<close>\<close>

fun assignees_of :: "result \<Rightarrow> bson list" where
  "assignees_of (Assignees (BList xs) n) = xs"
| "assignees_of r = []"

fun is_error :: "result \<Rightarrow> bool" where
  "is_error (Error m) = True"
| "is_error r = False"

definition analyze_developer_expertise ::
  "store \<Rightarrow> string \<Rightarrow> string option \<Rightarrow> string option \<Rightarrow> result" where
  "analyze_developer_expertise db project_name component keywords =
     catch
      (let assignees_result = get_project_assignees db project_name None None None None
       in if is_error assignees_result then Inr assignees_result
          else (case expertise_loop db project_name component keywords
                       (assignees_of assignees_result) [] of
                  Inl e \<Rightarrow> Inl e
                | Inr recommendations \<Rightarrow>
                    Inr (Expertise (top_recommendations (sort_by_score recommendations))
                           (length recommendations))))"

section \<open>The tool dispatch router\<close>

text \<open>
  \<^verbatim>\<open>EventHandler\<close> (\<^verbatim>\<open>src/event_handler.py\<close>) is built over a connector object and calls its
  seven methods with whatever values the decoded argument text holds. The connector is
  therefore a record of seven operations on decoded values, and the theorems about the
  router hold for every connector. \<^verbatim>\<open>json.loads\<close> and \<^verbatim>\<open>json.dumps\<close> are parameters:
  \<open>loads\<close> gives the decoded value or the exception it raises, \<open>dumps\<close> the text of a
  result. The \<^verbatim>\<open>print\<close> of each call is left out.
\<close>

record connector =
  c_fetch_project_issues ::
    "bson \<Rightarrow> bson \<Rightarrow> bson \<Rightarrow> bson \<Rightarrow> bson \<Rightarrow> bson \<Rightarrow> bson \<Rightarrow> bson \<Rightarrow> result"
  c_count_issues :: "bson \<Rightarrow> bson \<Rightarrow> bson \<Rightarrow> bson \<Rightarrow> bson \<Rightarrow> bson \<Rightarrow> result"
  c_list_unique_values :: "bson \<Rightarrow> bson \<Rightarrow> bson \<Rightarrow> result"
  c_get_project_assignees :: "bson \<Rightarrow> bson \<Rightarrow> bson \<Rightarrow> bson \<Rightarrow> bson \<Rightarrow> result"
  c_get_issue_details :: "bson \<Rightarrow> result"
  c_get_issue_comments :: "bson \<Rightarrow> result"
  c_analyze_developer_expertise :: "bson \<Rightarrow> bson \<Rightarrow> bson \<Rightarrow> result"

record tool_call =
  call_id :: string
  function_name :: string
  arguments :: string

record tool_output =
  tool_call_id :: string
  output_text :: string

record event_handler =
  response_text :: string
  tool_outputs :: "tool_output list"
  run_id :: "string option"
  all_tools_done :: bool
  tools_called :: bool

text \<open>
  \<^verbatim>\<open>args[key]\<close> on a decoded value: the value of the key in a dict, \<^verbatim>\<open>KeyError\<close> when the
  dict has no such key, \<^verbatim>\<open>TypeError\<close> on anything that is not a dict.
\<close>

fun subscript_value :: "bson \<Rightarrow> string \<Rightarrow> py_error + bson" where
  "subscript_value (BDoc kvs) key = subscript kvs key"
| "subscript_value (BList xs) key = Inl (TypeError ''list indices must be integers or slices, not str'')"
| "subscript_value (BStr s) key = Inl (TypeError ''string indices must be integers'')"
| "subscript_value v key = Inl (TypeError ''object is not subscriptable'')"

text \<open>
  \<^verbatim>\<open>args.get(key, default)\<close>, with \<^verbatim>\<open>None\<close> as the default when none is given. In every
  branch of the router a subscript of \<^verbatim>\<open>args\<close> comes first, so \<^verbatim>\<open>get\<close> is reached with a
  dict only.
\<close>

fun get_value :: "bson \<Rightarrow> string \<Rightarrow> bson \<Rightarrow> bson" where
  "get_value (BDoc kvs) key dflt = (case map_of kvs key of None \<Rightarrow> dflt | Some v \<Rightarrow> v)"
| "get_value v key dflt = dflt"

text \<open>The \<^verbatim>\<open>if\<close>/\<^verbatim>\<open>elif\<close> chain (lines 63--108).\<close>

definition route :: "connector \<Rightarrow> string \<Rightarrow> bson \<Rightarrow> py_error + result" where
  "route conn func_name args =
     (if func_name = ''fetch_project_issues'' then
        (case subscript_value args ''project_name'' of
           Inl e \<Rightarrow> Inl e
         | Inr project_name \<Rightarrow>
             Inr (c_fetch_project_issues conn project_name
                    (get_value args ''status'' BNull) (get_value args ''priority'' BNull)
                    (get_value args ''issue_type'' BNull) (get_value args ''assignee_id'' BNull)
                    (get_value args ''reporter_id'' BNull) (get_value args ''page'' (BInt 1))
                    (get_value args ''page_size'' (BInt 50))))
      else if func_name = ''count_issues'' then
        (case subscript_value args ''project_name'' of
           Inl e \<Rightarrow> Inl e
         | Inr project_name \<Rightarrow>
             Inr (c_count_issues conn project_name
                    (get_value args ''status'' BNull) (get_value args ''priority'' BNull)
                    (get_value args ''issue_type'' BNull) (get_value args ''assignee_id'' BNull)
                    (get_value args ''reporter_id'' BNull)))
      else if func_name = ''list_unique_values'' then
        (case subscript_value args ''collection_name'' of
           Inl e \<Rightarrow> Inl e
         | Inr collection_name \<Rightarrow>
            (case subscript_value args ''attribute_name'' of
               Inl e \<Rightarrow> Inl e
             | Inr attribute_name \<Rightarrow>
                 Inr (c_list_unique_values conn collection_name attribute_name
                        (get_value args ''filters'' BNull))))
      else if func_name = ''get_project_assignees'' then
        (case subscript_value args ''project_name'' of
           Inl e \<Rightarrow> Inl e
         | Inr project_name \<Rightarrow>
             Inr (c_get_project_assignees conn project_name
                    (get_value args ''status'' BNull) (get_value args ''priority'' BNull)
                    (get_value args ''issue_type'' BNull) (get_value args ''reporter_id'' BNull)))
      else if func_name = ''get_issue_details'' then
        (case subscript_value args ''issue_identifier'' of
           Inl e \<Rightarrow> Inl e
         | Inr issue_identifier \<Rightarrow> Inr (c_get_issue_details conn issue_identifier))
      else if func_name = ''get_issue_comments'' then
        (case subscript_value args ''issue_id'' of
           Inl e \<Rightarrow> Inl e
         | Inr issue_id \<Rightarrow> Inr (c_get_issue_comments conn issue_id))
      else if func_name = ''analyze_developer_expertise'' then
        (case subscript_value args ''project_name'' of
           Inl e \<Rightarrow> Inl e
         | Inr project_name \<Rightarrow>
             Inr (c_analyze_developer_expertise conn project_name
                    (get_value args ''component'' BNull) (get_value args ''keywords'' BNull)))
      else Inr (Error ''Unsupported function call.''))"

text \<open>The seven names the chain knows.\<close>

definition catalog :: "string list" where
  "catalog = [''fetch_project_issues'', ''count_issues'', ''list_unique_values'',
              ''get_project_assignees'', ''get_issue_details'', ''get_issue_comments'',
              ''analyze_developer_expertise'']"

text \<open>
  One turn of the loop (lines 56--114): the arguments are decoded before the name is
  looked at, and nothing catches an exception.
\<close>

definition handle_tool_call ::
  "(string \<Rightarrow> py_error + bson) \<Rightarrow> (result \<Rightarrow> string) \<Rightarrow> connector \<Rightarrow> tool_call
     \<Rightarrow> py_error + tool_output" where
  "handle_tool_call loads dumps conn tc =
     (case loads (arguments tc) of
        Inl e \<Rightarrow> Inl e
      | Inr args \<Rightarrow>
         (case route conn (function_name tc) args of
            Inl e \<Rightarrow> Inl e
          | Inr r \<Rightarrow> Inr \<lparr> tool_call_id = call_id tc, output_text = dumps r \<rparr>))"

fun collect_outputs ::
  "(string \<Rightarrow> py_error + bson) \<Rightarrow> (result \<Rightarrow> string) \<Rightarrow> connector \<Rightarrow> tool_call list
     \<Rightarrow> tool_output list \<Rightarrow> py_error + tool_output list" where
  "collect_outputs loads dumps conn [] outs = Inr outs"
| "collect_outputs loads dumps conn (tc # tcs) outs =
     (case handle_tool_call loads dumps conn tc of
        Inl e \<Rightarrow> Inl e
      | Inr out \<Rightarrow> collect_outputs loads dumps conn tcs (outs @ [out]))"

text \<open>
  \<^verbatim>\<open>handle_requires_action\<close> (lines 53--117): the handler with the outputs of the batch, or
  the exception that left the loop; the handler is written only after the loop.
\<close>

definition handle_requires_action ::
  "(string \<Rightarrow> py_error + bson) \<Rightarrow> (result \<Rightarrow> string) \<Rightarrow> connector \<Rightarrow> tool_call list
     \<Rightarrow> event_handler \<Rightarrow> py_error + event_handler" where
  "handle_requires_action loads dumps conn calls h =
     (case collect_outputs loads dumps conn calls [] of
        Inl e \<Rightarrow> Inl e
      | Inr outs \<Rightarrow> Inr (h\<lparr> tool_outputs := outs, all_tools_done := True \<rparr>))"

section \<open>Notions used in the statements\<close>

text \<open>
  A project name is present when some project document carries it; an issue identifier is
  present when some issue carries it as \<^verbatim>\<open>external_id\<close>.
\<close>

definition project_present :: "store \<Rightarrow> string \<Rightarrow> bool" where
  "project_present db project_name =
     list_ex (\<lambda>d. eq_match (map_of d ''name'') (BStr project_name)) (coll db ''project'')"

definition issue_present :: "store \<Rightarrow> string \<Rightarrow> bool" where
  "issue_present db issue_identifier =
     list_ex (\<lambda>d. eq_match (map_of d ''external_id'') (BStr issue_identifier)) (coll db ''issue'')"

text \<open>
  An optional identifier argument without white space: when \<^verbatim>\<open>ObjectId.is_valid\<close> accepts
  such an argument, it is 24 hexadecimal digits.
\<close>

definition no_white_space :: "string option \<Rightarrow> bool" where
  "no_white_space arg = (case arg of None \<Rightarrow> True | Some x \<Rightarrow> list_all (\<lambda>c. \<not> is_space c) x)"

text \<open>
  The issue systems of a project: the identifiers of the issue systems whose
  \<^verbatim>\<open>project_id\<close> is the identifier of the first project of that name. An issue belongs to
  the project when its \<^verbatim>\<open>issue_system_id\<close> is one of them.
\<close>

definition project_systems :: "store \<Rightarrow> string \<Rightarrow> bson list" where
  "project_systems db project_name =
     (case filter (\<lambda>d. eq_match (map_of d ''name'') (BStr project_name)) (coll db ''project'') of
        [] \<Rightarrow> []
      | p # ps \<Rightarrow>
         (case map_of p ''_id'' of
            None \<Rightarrow> []
          | Some project_id \<Rightarrow>
              List.map_filter (\<lambda>s. map_of s ''_id'')
                (filter (\<lambda>s. eq_match (map_of s ''project_id'') project_id)
                   (coll db ''issue_system''))))"

definition in_systems :: "bson list \<Rightarrow> doc \<Rightarrow> bool" where
  "in_systems ids d = list_ex (eq_match (map_of d ''issue_system_id'')) ids"

definition project_issues :: "store \<Rightarrow> string \<Rightarrow> doc list" where
  "project_issues db project_name =
     filter (in_systems (project_systems db project_name)) (coll db ''issue'')"

text \<open>The issues a dict of field conditions selects, in the store's order.\<close>

definition filtered_issues :: "store \<Rightarrow> (string \<times> cond) list \<Rightarrow> doc list" where
  "filtered_issues db query =
     filter (matches (regex_search db) (QFields query)) (coll db ''issue'')"

text \<open>The values of the field \<^verbatim>\<open>assignee_id\<close> in a list of issues, and a set built from a list.\<close>

definition stored_assignees :: "doc list \<Rightarrow> bson list" where
  "stored_assignees issues = List.map_filter (\<lambda>d. map_of d ''assignee_id'') issues"

definition py_set :: "bson list \<Rightarrow> bson list" where
  "py_set xs = foldl set_add [] xs"

text \<open>An optional pattern argument is accepted when it is not used or the store accepts it.\<close>

fun accepted :: "store \<Rightarrow> string option \<Rightarrow> bool" where
  "accepted db None = True"
| "accepted db (Some p) =
     (p = [] \<or> (case regex_search db p ''i'' of Inl e \<Rightarrow> False | Inr f \<Rightarrow> True))"

text \<open>
  The issue is assigned to the candidate: it has an assignee, and the assignee, normalized,
  is the candidate (the candidates are normalized values).
\<close>

definition assigned_to :: "bson \<Rightarrow> doc \<Rightarrow> bool" where
  "assigned_to assignee_id d =
     (case map_of d ''assignee_id'' of None \<Rightarrow> False | Some v \<Rightarrow> serialize_mongo_doc v = assignee_id)"

text \<open>The assignee of an issue, where there is one, is a plain scalar.\<close>

definition plain_assignee :: "doc \<Rightarrow> bool" where
  "plain_assignee d =
     (case map_of d ''assignee_id'' of None \<Rightarrow> True | Some v \<Rightarrow> hashable v \<and> plain v)"

text \<open>
  A field holds a text when it is a string in which the text occurs, letters compared
  without regard to case, or a sequence with such a string among its members.
\<close>

fun holds_text :: "string \<Rightarrow> bson option \<Rightarrow> bool" where
  "holds_text t None = False"
| "holds_text t (Some v) =
     (case v of
        BStr s \<Rightarrow> contains_ci t s
      | BList xs \<Rightarrow> list_ex (\<lambda>x. case x of BStr s \<Rightarrow> contains_ci t s | other \<Rightarrow> False) xs
      | other \<Rightarrow> False)"

text \<open>
  The issues of the given issue systems that are assigned to the candidate and in which
  one of two fields holds the text.
\<close>

definition issues_matching ::
  "store \<Rightarrow> bson list \<Rightarrow> bson \<Rightarrow> string \<Rightarrow> string \<Rightarrow> string \<Rightarrow> doc list" where
  "issues_matching db ids assignee_id t field1 field2 =
     filter (\<lambda>d. in_systems ids d \<and> assigned_to assignee_id d
                \<and> (holds_text t (map_of d field1) \<or> holds_text t (map_of d field2)))
       (coll db ''issue'')"

text \<open>
  The issues of the given issue systems that are assigned to the candidate and whose
  \<^verbatim>\<open>status\<close> is the string \<^verbatim>\<open>Resolved\<close>, or a sequence with that string among its members.
\<close>

definition resolved_matches :: "store \<Rightarrow> bson list \<Rightarrow> bson \<Rightarrow> doc list" where
  "resolved_matches db ids assignee_id =
     filter (\<lambda>d. in_systems ids d \<and> assigned_to assignee_id d
                \<and> (case map_of d ''status'' of
                      Some (BStr s) \<Rightarrow> s = ''Resolved''
                    | Some (BList xs) \<Rightarrow> BStr ''Resolved'' \<in> set xs
                    | other \<Rightarrow> False))
       (coll db ''issue'')"

text \<open>The counts of a candidate as a triple, and the entry made from a candidate and a triple.\<close>

definition counts_of ::
  "store \<Rightarrow> string \<Rightarrow> string option \<Rightarrow> string option \<Rightarrow> bson \<Rightarrow> nat \<times> nat \<times> nat" where
  "counts_of db project_name component keywords assignee_id =
     (case expertise_counts db project_name component keywords assignee_id of
        Inl e \<Rightarrow> (0, 0, 0)
      | Inr t \<Rightarrow> t)"

definition entry_of ::
  "store \<Rightarrow> string \<Rightarrow> string option \<Rightarrow> string option \<Rightarrow> bson \<Rightarrow> recommendation" where
  "entry_of db project_name component keywords assignee_id =
     (case counts_of db project_name component keywords assignee_id of
        (c, k, r) \<Rightarrow> make_recommendation assignee_id c k r)"

section \<open>Example data\<close>

text \<open>A record with a native identifier, a native datetime and a nested sequence.\<close>

definition sample_record :: bson where
  "sample_record =
     BDoc [(''_id'', BOid ''507f1f77bcf86cd799439011''),
           (''created_at'',
              BDate \<lparr> dt_year = 2015, dt_month = 3, dt_day = 9, dt_hour = 14, dt_minute = 5,
                      dt_second = 7, dt_microsecond = 0 \<rparr>),
           (''labels'', BList [BStr ''bug'', BInt 2, BBool True, BNull])]"

definition sample_record_normalized :: bson where
  "sample_record_normalized =
     BDoc [(''_id'', BStr ''507f1f77bcf86cd799439011''),
           (''created_at'', BStr ''2015-03-09T14:05:07''),
           (''labels'', BList [BStr ''bug'', BInt 2, BBool True, BNull])]"

text \<open>
  An engine for the examples. The one pattern with a special character that the examples
  use is the opening parenthesis alone, which the store rejects. The example engine turns
  away every other pattern as well; no example asks it about one. The process of the
  examples lists a set in the order of insertion; no statement about the examples depends
  on that order.
\<close>

definition example_engine :: "string \<Rightarrow> string \<Rightarrow> (string \<times> string) + (string \<Rightarrow> bool)" where
  "example_engine p opts =
     (if p = ''(''
      then Inl (''Regular expression is invalid: missing closing parenthesis'',
                ''{'' @ quoted ''ok'' @ '': 0.0, '' @ quoted ''errmsg'' @ '': ''
                  @ quoted ''Regular expression is invalid: missing closing parenthesis''
                  @ '', '' @ quoted ''code'' @ '': 51091, '' @ quoted ''codeName'' @ '': ''
                  @ quoted ''Location51091'' @ ''}'')
      else Inl (''pattern outside the examples'', ''{}''))"

definition insertion_rank :: "bson list \<Rightarrow> bson \<Rightarrow> nat" where
  "insertion_rank members x = 0"

text \<open>
  A project with one issue system and four issues: one assigned to a developer named by
  a string, one whose assignee is null, one without the field, one assigned to a developer
  named by a native identifier; and a comment on the first issue.
\<close>

definition small_store :: store where
  "small_store =
     \<lparr> collections =
         [(''project'',
             [(BOid ''5b0000000000000000000001'', [(''name'', BStr ''zookeeper'')])]),
          (''issue_system'',
             [(BOid ''5b0000000000000000000002'',
               [(''project_id'', BOid ''5b0000000000000000000001'')])]),
          (''issue'',
             [(BOid ''5b00000000000000000000a1'',
               [(''issue_system_id'', BOid ''5b0000000000000000000002''),
                (''external_id'', BStr ''ZOOKEEPER-1''), (''title'', BStr ''abc''),
                (''status'', BStr ''Open''), (''assignee_id'', BStr ''dev1'')]),
              (BOid ''5b00000000000000000000a2'',
               [(''issue_system_id'', BOid ''5b0000000000000000000002''),
                (''external_id'', BStr ''ZOOKEEPER-2''), (''title'', BStr ''second''),
                (''status'', BStr ''Open''), (''assignee_id'', BNull)]),
              (BOid ''5b00000000000000000000a3'',
               [(''issue_system_id'', BOid ''5b0000000000000000000002''),
                (''external_id'', BStr ''ZOOKEEPER-3''), (''title'', BStr ''third''),
                (''status'', BStr ''Open'')]),
              (BOid ''5b00000000000000000000a4'',
               [(''issue_system_id'', BOid ''5b0000000000000000000002''),
                (''external_id'', BStr ''ZOOKEEPER-4''), (''title'', BStr ''fourth''),
                (''status'', BStr ''Resolved''),
                (''assignee_id'', BOid ''5b00000000000000000000d1'')])]),
          (''issue_comment'',
             [(BOid ''5b00000000000000000000c1'',
               [(''issue_id'', BOid ''5b00000000000000000000a1''),
                (''comment'', BStr ''seen on trunk'')])])],
       regex_engine = example_engine,
       set_rank = insertion_rank \<rparr>"

text \<open>
  A project with three developers. For the component \<^verbatim>\<open>ui\<close> and the keyword \<^verbatim>\<open>crash\<close> their
  counts of component matches, keyword matches and resolved issues are (3, 0, 1),
  (0, 2, 1) and (1, 1, 1). The second issue stores a sequence of components.
\<close>

definition expertise_store :: store where
  "expertise_store =
     \<lparr> collections =
         [(''project'',
             [(BOid ''5c0000000000000000000001'', [(''name'', BStr ''zookeeper'')])]),
          (''issue_system'',
             [(BOid ''5c0000000000000000000002'',
               [(''project_id'', BOid ''5c0000000000000000000001'')])]),
          (''issue'',
             [(BInt 1, [(''issue_system_id'', BOid ''5c0000000000000000000002''),
                (''assignee_id'', BStr ''alice''), (''component'', BStr ''ui''),
                (''title'', BStr ''Button misaligned''), (''status'', BStr ''Resolved'')]),
              (BInt 2, [(''issue_system_id'', BOid ''5c0000000000000000000002''),
                (''assignee_id'', BStr ''alice''),
                (''component'', BList [BStr ''web'', BStr ''UI'']),
                (''title'', BStr ''Dark mode''), (''status'', BStr ''Open'')]),
              (BInt 3, [(''issue_system_id'', BOid ''5c0000000000000000000002''),
                (''assignee_id'', BStr ''alice''), (''component'', BStr ''core''),
                (''title'', BStr ''Build tooling''), (''status'', BStr ''Open'')]),
              (BInt 4, [(''issue_system_id'', BOid ''5c0000000000000000000002''),
                (''assignee_id'', BStr ''bob''), (''component'', BStr ''server''),
                (''title'', BStr ''Crash on start''), (''status'', BStr ''Resolved'')]),
              (BInt 5, [(''issue_system_id'', BOid ''5c0000000000000000000002''),
                (''assignee_id'', BStr ''bob''), (''component'', BStr ''server''),
                (''title'', BStr ''Leak''), (''desc'', BStr ''crashes after an hour''),
                (''status'', BStr ''Open'')]),
              (BInt 6, [(''issue_system_id'', BOid ''5c0000000000000000000002''),
                (''assignee_id'', BStr ''carol''), (''component'', BStr ''ui''),
                (''title'', BStr ''Crash in dialog''), (''status'', BStr ''Resolved'')])])],
       regex_engine = example_engine,
       set_rank = insertion_rank \<rparr>"

text \<open>
  A project with two issues of one developer; the title of the first has a parenthesis,
  and the second is resolved.
\<close>

definition paren_store :: store where
  "paren_store =
     \<lparr> collections =
         [(''project'',
             [(BOid ''5d0000000000000000000001'', [(''name'', BStr ''zookeeper'')])]),
          (''issue_system'',
             [(BOid ''5d0000000000000000000002'',
               [(''project_id'', BOid ''5d0000000000000000000001'')])]),
          (''issue'',
             [(BInt 1, [(''issue_system_id'', BOid ''5d0000000000000000000002''),
                (''assignee_id'', BStr ''dev1''), (''title'', BStr ''close(fd) fails''),
                (''status'', BStr ''Open'')]),
              (BInt 2, [(''issue_system_id'', BOid ''5d0000000000000000000002''),
                (''assignee_id'', BStr ''dev1''), (''title'', BStr ''Leak''),
                (''status'', BStr ''Resolved'')])])],
       regex_engine = example_engine,
       set_rank = insertion_rank \<rparr>"

text \<open>A project with one issue, which stores a sequence of developers as its assignee.\<close>

definition array_store :: store where
  "array_store =
     \<lparr> collections =
         [(''project'',
             [(BOid ''5e0000000000000000000001'', [(''name'', BStr ''zookeeper'')])]),
          (''issue_system'',
             [(BOid ''5e0000000000000000000002'',
               [(''project_id'', BOid ''5e0000000000000000000001'')])]),
          (''issue'',
             [(BInt 1, [(''issue_system_id'', BOid ''5e0000000000000000000002''),
                (''assignee_id'', BList [BStr ''dev1'', BStr ''dev2'']),
                (''title'', BStr ''Pairing''), (''status'', BStr ''Resolved'')])])],
       regex_engine = example_engine,
       set_rank = insertion_rank \<rparr>"

text \<open>A project with one issue, whose assignee is null.\<close>

definition unassigned_store :: store where
  "unassigned_store =
     \<lparr> collections =
         [(''project'',
             [(BOid ''5f0000000000000000000001'', [(''name'', BStr ''zookeeper'')])]),
          (''issue_system'',
             [(BOid ''5f0000000000000000000002'',
               [(''project_id'', BOid ''5f0000000000000000000001'')])]),
          (''issue'',
             [(BInt 1, [(''issue_system_id'', BOid ''5f0000000000000000000002''),
                (''assignee_id'', BNull), (''title'', BStr ''Unowned''),
                (''status'', BStr ''Open'')])])],
       regex_engine = example_engine,
       set_rank = insertion_rank \<rparr>"

definition entry :: "string \<Rightarrow> string \<Rightarrow> nat \<Rightarrow> nat \<Rightarrow> nat \<Rightarrow> nat \<Rightarrow> recommendation" where
  "entry i n s c k r =
     \<lparr> developer_id = i, developer_name = n, expertise_score = s, component_experience = c,
       keyword_experience = k, resolved_issues = r \<rparr>"

text \<open>
  For the examples of the router: a handler as \<^verbatim>\<open>__init__\<close> leaves it; a connector whose
  every operation answers with one given result (the theorems hold for every connector);
  \<^verbatim>\<open>json.loads\<close> on the argument texts that the examples use, of which \<^verbatim>\<open>not json\<close> is no
  JSON text; \<^verbatim>\<open>json.dumps\<close> on the two results that the examples produce.
\<close>

definition new_handler :: event_handler where
  "new_handler =
     \<lparr> response_text = [], tool_outputs = [], run_id = None, all_tools_done = False,
       tools_called = False \<rparr>"

definition fixed_connector :: "result \<Rightarrow> connector" where
  "fixed_connector x =
     \<lparr> c_fetch_project_issues = (\<lambda>project_name status priority issue_type assignee_id
                                   reporter_id page page_size. x),
       c_count_issues = (\<lambda>project_name status priority issue_type assignee_id reporter_id. x),
       c_list_unique_values = (\<lambda>collection_name attribute_name filters. x),
       c_get_project_assignees = (\<lambda>project_name status priority issue_type reporter_id. x),
       c_get_issue_details = (\<lambda>issue_identifier. x),
       c_get_issue_comments = (\<lambda>issue_id. x),
       c_analyze_developer_expertise = (\<lambda>project_name component kw. x) \<rparr>"

definition json_string :: "string \<Rightarrow> string" where
  "json_string s = CHR 0x22 # s @ [CHR 0x22]"

definition zookeeper_arguments :: string where
  "zookeeper_arguments = ''{'' @ json_string ''project_name'' @ '': '' @ json_string ''zookeeper'' @ ''}''"

definition example_loads :: "string \<Rightarrow> py_error + bson" where
  "example_loads s =
     (if s = ''{}'' then Inr (BDoc [])
      else if s = zookeeper_arguments then Inr (BDoc [(''project_name'', BStr ''zookeeper'')])
      else Inl (JSONDecodeError ''Expecting value: line 1 column 1 (char 0)''))"

fun example_dumps :: "result \<Rightarrow> string" where
  "example_dumps (Error m) = ''{'' @ json_string ''error'' @ '': '' @ json_string m @ ''}''"
| "example_dumps (Count n) = ''{'' @ json_string ''count'' @ '': '' @ digits n @ ''}''"
| "example_dumps x = []"

definition unknown_call :: tool_call where
  "unknown_call = \<lparr> call_id = ''call_1'', function_name = ''drop_database'', arguments = ''{}'' \<rparr>"

definition undecodable_call :: tool_call where
  "undecodable_call =
     \<lparr> call_id = ''call_1'', function_name = ''drop_database'', arguments = ''not json'' \<rparr>"

definition count_call :: tool_call where
  "count_call =
     \<lparr> call_id = ''call_2'', function_name = ''count_issues'', arguments = zookeeper_arguments \<rparr>"

section \<open>Properties of normalization\<close>

lemma plain_serialize: "plain (serialize_mongo_doc v)"
  by (induction v rule: serialize_mongo_doc.induct) (auto simp: list_all_iff)

lemma serialize_plain_id: "plain v \<Longrightarrow> serialize_mongo_doc v = v"
proof (induction v rule: serialize_mongo_doc.induct)
  case (1 xs)
  then have "map serialize_mongo_doc xs = xs"
    by (simp add: list_all_iff map_idI)
  then show ?case by simp
next
  case (2 kvs)
  have "map (\<lambda>(key, value). (key, serialize_mongo_doc value)) kvs = map (\<lambda>p. p) kvs"
  proof (rule map_cong[OF refl])
    fix p assume p: "p \<in> set kvs"
    obtain k v where kv: "p = (k, v)" by (cases p)
    from 2 p kv have "serialize_mongo_doc v = v"
      by (auto simp: list_all_iff)
    with kv show "(case p of (key, value) \<Rightarrow> (key, serialize_mongo_doc value)) = p"
      by simp
  qed
  then show ?case by simp
qed simp_all

lemma shape_serialize: "shape_of (serialize_mongo_doc v) = shape_of v"
  by (induction v rule: serialize_mongo_doc.induct) (auto simp: comp_def case_prod_unfold)

text \<open>
  C8. Normalization of any nested value gives a value of the same structure in which no
  identifier and no datetime is left at any depth: an identifier has become its string,
  a datetime its ISO-8601 string, every other scalar is unchanged, sequences and mappings
  are normalized element by element. Normalizing twice is normalizing once, and a value
  that is already plain is returned unchanged. (The function is pure: it builds its
  result and never writes to its argument.)
\<close>

theorem serialize_mongo_doc_normalizes:
  "plain (serialize_mongo_doc v)
   \<and> shape_of (serialize_mongo_doc v) = shape_of v
   \<and> serialize_mongo_doc (serialize_mongo_doc v) = serialize_mongo_doc v
   \<and> (plain v \<longrightarrow> serialize_mongo_doc v = v)
   \<and> serialize_mongo_doc (BOid h) = BStr h
   \<and> serialize_mongo_doc (BDate d) = BStr (isoformat d)
   \<and> serialize_mongo_doc BNull = BNull
   \<and> serialize_mongo_doc (BBool b) = BBool b
   \<and> serialize_mongo_doc (BInt i) = BInt i
   \<and> serialize_mongo_doc (BStr s) = BStr s
   \<and> serialize_mongo_doc (BList xs) = BList (map serialize_mongo_doc xs)
   \<and> serialize_mongo_doc (BDoc kvs) = BDoc (map (\<lambda>(k, x). (k, serialize_mongo_doc x)) kvs)"
  using plain_serialize [of v] shape_serialize [of v]
    serialize_plain_id [of "serialize_mongo_doc v"] serialize_plain_id [of v]
  by simp

lemma sample_record_serialized: "serialize_mongo_doc sample_record = sample_record_normalized"
  by code_simp

theorem serialize_mongo_doc_normalizes_witness:
  "plain (serialize_mongo_doc sample_record)
   \<and> serialize_mongo_doc sample_record = sample_record_normalized
   \<and> plain sample_record_normalized
   \<and> serialize_mongo_doc sample_record_normalized = sample_record_normalized"
proof -
  have p: "plain sample_record_normalized"
    by (simp add: sample_record_normalized_def)
  from serialize_mongo_doc_normalizes [of sample_record_normalized] p
  have "serialize_mongo_doc sample_record_normalized = sample_record_normalized"
    by blast
  with serialize_mongo_doc_normalizes [of sample_record] p show ?thesis
    by (simp add: sample_record_serialized)
qed

section \<open>Looking up projects and issues\<close>

lemma coll_id: "d \<in> set (coll db c) \<Longrightarrow> \<exists>i fields. d = (''_id'', i) # fields"
  by (auto simp: coll_def split: option.splits)

lemma coll_subscript:
  "d \<in> set (coll db c) \<Longrightarrow> d \<noteq> [] \<and> (\<exists>i. map_of d ''_id'' = Some i \<and> subscript d ''_id'' = Inr i)"
  using coll_id[of d db c] by (auto simp: subscript_def)

lemma subscript_all_ids:
  "\<forall>d \<in> set ds. map_of d ''_id'' \<noteq> None \<Longrightarrow>
   subscript_all ds ''_id'' = Inr (List.map_filter (\<lambda>s. map_of s ''_id'') ds)"
  by (induction ds) (auto simp: subscript_def)

lemma find_docs_eq:
  "find_docs db c (QFields [(k, CEq v)]) = Inr (filter (\<lambda>d. eq_match (map_of d k) v) (coll db c))"
proof -
  have "matches (regex_search db) (QFields [(k, CEq v)]) = (\<lambda>d. eq_match (map_of d k) v)"
    by (rule ext) simp
  then show ?thesis by (simp add: find_docs_def)
qed

lemma find_one_eq:
  "find_one db c (QFields [(k, CEq v)])
     = Inr (case filter (\<lambda>d. eq_match (map_of d k) v) (coll db c) of [] \<Rightarrow> None | d # rest \<Rightarrow> Some d)"
  by (simp add: find_one_def find_docs_eq)

lemma find_one_absent:
  "\<not> list_ex (\<lambda>d. eq_match (map_of d k) v) (coll db c) \<Longrightarrow> find_one db c (QFields [(k, CEq v)]) = Inr None"
  by (simp add: find_one_eq list_ex_iff filter_empty_conv[THEN iffD2])

lemma resolve_project:
  assumes "project_present db pn"
  shows "project_issue_system_ids db pn = Inr (Some (project_systems db pn))"
    and "get_issue_system_ids db pn = Inr (project_systems db pn)"
proof -
  let ?ps = "filter (\<lambda>d. eq_match (map_of d ''name'') (BStr pn)) (coll db ''project'')"
  from assms have "?ps \<noteq> []"
    by (simp add: project_present_def list_ex_iff filter_empty_conv)
  then obtain p rest where ps: "?ps = p # rest" by (cases ?ps) auto
  then have "p \<in> set ?ps" by simp
  then have "p \<in> set (coll db ''project'')" by simp
  from coll_subscript[OF this] obtain i
    where ne: "p \<noteq> []" and m: "map_of p ''_id'' = Some i" and sub: "subscript p ''_id'' = Inr i"
    by blast
  let ?ss = "filter (\<lambda>s. eq_match (map_of s ''project_id'') i) (coll db ''issue_system'')"
  have "\<forall>d \<in> set ?ss. map_of d ''_id'' \<noteq> None"
    using coll_subscript[of _ db "''issue_system''"] by auto
  from subscript_all_ids[OF this]
  have ids: "subscript_all ?ss ''_id'' = Inr (List.map_filter (\<lambda>s. map_of s ''_id'') ?ss)" .
  have sys: "project_systems db pn = List.map_filter (\<lambda>s. map_of s ''_id'') ?ss"
    by (simp add: project_systems_def ps m)
  show "project_issue_system_ids db pn = Inr (Some (project_systems db pn))"
    by (simp add: project_issue_system_ids_def find_one_eq ps ne sub find_docs_eq ids sys)
  show "get_issue_system_ids db pn = Inr (project_systems db pn)"
    by (simp add: get_issue_system_ids_def find_one_eq ps ne sub find_docs_eq ids sys)
qed

section \<open>Names that are not found\<close>

lemma absent_project:
  assumes "\<not> project_present db pn"
  shows "project_issue_system_ids db pn = Inr None"
  using find_one_absent[OF assms[unfolded project_present_def]]
  by (simp add: project_issue_system_ids_def)

lemma absent_issue:
  "\<not> issue_present db i \<Longrightarrow> get_issue_details db i = Error (issue_not_found i)"
  using find_one_absent[of "''external_id''" "BStr i" db "''issue''"]
  by (simp add: get_issue_details_def issue_present_def)

text \<open>
  C4. A lookup of a name that the store does not hold gives an error whose message names
  what is missing, and never an empty success: for a project name that is not present,
  \<^verbatim>\<open>fetch_project_issues\<close>, \<^verbatim>\<open>count_issues\<close>, \<^verbatim>\<open>get_project_assignees\<close> and
  \<^verbatim>\<open>analyze_developer_expertise\<close> return the error \<^verbatim>\<open>Project '<name>' not found.\<close>, whatever
  the other arguments are; for an identifier that no issue has as \<^verbatim>\<open>external_id\<close>,
  \<^verbatim>\<open>get_issue_details\<close> returns \<^verbatim>\<open>Issue matching '<identifier>' not found.\<close>; for a name that
  is not a collection, \<^verbatim>\<open>list_unique_values\<close> returns \<^verbatim>\<open>Collection '<name>' does not exist.\<close>
  The messages are written out, the apostrophe being the character \<^verbatim>\<open>0x27\<close>.
\<close>

theorem missing_entity_is_an_error:
  "(\<not> project_present db pn \<longrightarrow>
      fetch_project_issues db pn st pr it a r page page_size
        = Error (''Project '' @ CHR 0x27 # pn @ CHR 0x27 # '' not found.'')
      \<and> count_issues db pn st pr it a r
        = Error (''Project '' @ CHR 0x27 # pn @ CHR 0x27 # '' not found.'')
      \<and> get_project_assignees db pn st pr it r
        = Error (''Project '' @ CHR 0x27 # pn @ CHR 0x27 # '' not found.'')
      \<and> analyze_developer_expertise db pn component kw
        = Error (''Project '' @ CHR 0x27 # pn @ CHR 0x27 # '' not found.''))
   \<and> (\<not> issue_present db i \<longrightarrow>
         get_issue_details db i
           = Error (''Issue matching '' @ CHR 0x27 # i @ CHR 0x27 # '' not found.''))
   \<and> (cn \<notin> set (list_collection_names db) \<longrightarrow>
         list_unique_values db cn attr filters
           = Error (''Collection '' @ CHR 0x27 # cn @ CHR 0x27 # '' does not exist.''))"
proof (intro conjI impI)
  assume np: "\<not> project_present db pn"
  note r = absent_project[OF np]
  show "fetch_project_issues db pn st pr it a r page page_size
          = Error (''Project '' @ CHR 0x27 # pn @ CHR 0x27 # '' not found.'')"
    by (simp add: fetch_project_issues_def r project_not_found_def quoted_def)
  show "count_issues db pn st pr it a r
          = Error (''Project '' @ CHR 0x27 # pn @ CHR 0x27 # '' not found.'')"
    by (simp add: count_issues_def r project_not_found_def quoted_def)
  show ga: "get_project_assignees db pn st pr it r
          = Error (''Project '' @ CHR 0x27 # pn @ CHR 0x27 # '' not found.'')" for st pr it r
    by (simp add: get_project_assignees_def r project_not_found_def quoted_def)
  show "analyze_developer_expertise db pn component kw
          = Error (''Project '' @ CHR 0x27 # pn @ CHR 0x27 # '' not found.'')"
    by (simp add: analyze_developer_expertise_def ga)
next
  assume "\<not> issue_present db i"
  then show "get_issue_details db i
               = Error (''Issue matching '' @ CHR 0x27 # i @ CHR 0x27 # '' not found.'')"
    by (simp add: absent_issue issue_not_found_def quoted_def)
next
  assume "cn \<notin> set (list_collection_names db)"
  then show "list_unique_values db cn attr filters
               = Error (''Collection '' @ CHR 0x27 # cn @ CHR 0x27 # '' does not exist.'')"
    by (simp add: list_unique_values_def quoted_def)
qed

lemma small_store_absent:
  "\<not> project_present small_store ''hadoop''"
  "\<not> issue_present small_store ''ZOOKEEPER-9''"
  "''pull_request'' \<notin> set (list_collection_names small_store)"
  by code_simp+

theorem missing_entity_is_an_error_witness:
  "\<not> project_present small_store ''hadoop''
   \<and> fetch_project_issues small_store ''hadoop'' (Some ''Open'') None None None None 1 50
       = Error (''Project '' @ CHR 0x27 # ''hadoop'' @ CHR 0x27 # '' not found.'')
   \<and> count_issues small_store ''hadoop'' (Some ''Open'') None None None None
       = Error (''Project '' @ CHR 0x27 # ''hadoop'' @ CHR 0x27 # '' not found.'')
   \<and> get_project_assignees small_store ''hadoop'' (Some ''Open'') None None None
       = Error (''Project '' @ CHR 0x27 # ''hadoop'' @ CHR 0x27 # '' not found.'')
   \<and> analyze_developer_expertise small_store ''hadoop'' (Some ''ui'') None
       = Error (''Project '' @ CHR 0x27 # ''hadoop'' @ CHR 0x27 # '' not found.'')
   \<and> \<not> issue_present small_store ''ZOOKEEPER-9''
   \<and> get_issue_details small_store ''ZOOKEEPER-9''
       = Error (''Issue matching '' @ CHR 0x27 # ''ZOOKEEPER-9'' @ CHR 0x27 # '' not found.'')
   \<and> ''pull_request'' \<notin> set (list_collection_names small_store)
   \<and> list_unique_values small_store ''pull_request'' ''state'' None
       = Error (''Collection '' @ CHR 0x27 # ''pull_request'' @ CHR 0x27 # '' does not exist.'')"
  using missing_entity_is_an_error [of small_store "''hadoop''" "Some ''Open''" None None None None 1 50
      "Some ''ui''" None "''ZOOKEEPER-9''" "''pull_request''" "''state''" None]
    small_store_absent
  by simp

section \<open>Empty filters\<close>

lemma put_filter_empty: "put_filter key (Some []) conv query = put_filter key None conv query"
  by (simp add: put_filter_def)

lemma fetch_query_empty:
  "fetch_query ids (Some []) pr it a r = fetch_query ids None pr it a r"
  "fetch_query ids st (Some []) it a r = fetch_query ids st None it a r"
  "fetch_query ids st pr (Some []) a r = fetch_query ids st pr None a r"
  "fetch_query ids st pr it (Some []) r = fetch_query ids st pr it None r"
  "fetch_query ids st pr it a (Some []) = fetch_query ids st pr it a None"
  by (simp_all add: fetch_query_def put_filter_empty)

lemma count_query_empty:
  "count_query ids (Some []) pr it a r = count_query ids None pr it a r"
  "count_query ids st (Some []) it a r = count_query ids st None it a r"
  "count_query ids st pr (Some []) a r = count_query ids st pr None a r"
  "count_query ids st pr it (Some []) r = count_query ids st pr it None r"
  "count_query ids st pr it a (Some []) = count_query ids st pr it a None"
  by (simp_all add: count_query_def put_filter_empty)

lemma assignees_query_empty:
  "assignees_query ids (Some []) pr it r = assignees_query ids None pr it r"
  "assignees_query ids st (Some []) it r = assignees_query ids st None it r"
  "assignees_query ids st pr (Some []) r = assignees_query ids st pr None r"
  "assignees_query ids st pr it (Some []) = assignees_query ids st pr it None"
  by (simp_all add: assignees_query_def put_filter_empty)

text \<open>
  C10. In \<^verbatim>\<open>fetch_project_issues\<close>, \<^verbatim>\<open>count_issues\<close> and \<^verbatim>\<open>get_project_assignees\<close> the empty
  string for an optional filter gives the same filter dict and the same result as leaving
  the filter out: each filter is added under \<^verbatim>\<open>if value:\<close>, which the empty string fails.
\<close>

theorem empty_string_filter_is_no_filter:
  "fetch_query ids (Some []) pr it a r = fetch_query ids None pr it a r
   \<and> fetch_query ids st (Some []) it a r = fetch_query ids st None it a r
   \<and> fetch_query ids st pr (Some []) a r = fetch_query ids st pr None a r
   \<and> fetch_query ids st pr it (Some []) r = fetch_query ids st pr it None r
   \<and> fetch_query ids st pr it a (Some []) = fetch_query ids st pr it a None
   \<and> count_query ids (Some []) pr it a r = count_query ids None pr it a r
   \<and> count_query ids st (Some []) it a r = count_query ids st None it a r
   \<and> count_query ids st pr (Some []) a r = count_query ids st pr None a r
   \<and> count_query ids st pr it (Some []) r = count_query ids st pr it None r
   \<and> count_query ids st pr it a (Some []) = count_query ids st pr it a None
   \<and> assignees_query ids (Some []) pr it r = assignees_query ids None pr it r
   \<and> assignees_query ids st (Some []) it r = assignees_query ids st None it r
   \<and> assignees_query ids st pr (Some []) r = assignees_query ids st pr None r
   \<and> assignees_query ids st pr it (Some []) = assignees_query ids st pr it None
   \<and> fetch_project_issues db pn (Some []) pr it a r page page_size
       = fetch_project_issues db pn None pr it a r page page_size
   \<and> fetch_project_issues db pn st (Some []) it a r page page_size
       = fetch_project_issues db pn st None it a r page page_size
   \<and> fetch_project_issues db pn st pr (Some []) a r page page_size
       = fetch_project_issues db pn st pr None a r page page_size
   \<and> fetch_project_issues db pn st pr it (Some []) r page page_size
       = fetch_project_issues db pn st pr it None r page page_size
   \<and> fetch_project_issues db pn st pr it a (Some []) page page_size
       = fetch_project_issues db pn st pr it a None page page_size
   \<and> count_issues db pn (Some []) pr it a r = count_issues db pn None pr it a r
   \<and> count_issues db pn st (Some []) it a r = count_issues db pn st None it a r
   \<and> count_issues db pn st pr (Some []) a r = count_issues db pn st pr None a r
   \<and> count_issues db pn st pr it (Some []) r = count_issues db pn st pr it None r
   \<and> count_issues db pn st pr it a (Some []) = count_issues db pn st pr it a None
   \<and> get_project_assignees db pn (Some []) pr it r = get_project_assignees db pn None pr it r
   \<and> get_project_assignees db pn st (Some []) it r = get_project_assignees db pn st None it r
   \<and> get_project_assignees db pn st pr (Some []) r = get_project_assignees db pn st pr None r
   \<and> get_project_assignees db pn st pr it (Some []) = get_project_assignees db pn st pr it None"
  unfolding fetch_project_issues_def count_issues_def get_project_assignees_def
    fetch_query_empty count_query_empty assignees_query_empty
  by simp

theorem empty_string_filter_is_no_filter_witness:
  "fetch_project_issues small_store ''zookeeper'' (Some []) None None None None 2 1
     = fetch_project_issues small_store ''zookeeper'' None None None None None 2 1
   \<and> count_issues small_store ''zookeeper'' None None None (Some []) None = Count 4
   \<and> count_issues small_store ''zookeeper'' None None None None None = Count 4
   \<and> get_project_assignees small_store ''zookeeper'' None None None (Some [])
       = get_project_assignees small_store ''zookeeper'' None None None None"
proof -
  have "count_issues small_store ''zookeeper'' None None None None None = Count 4"
    by code_simp
  with empty_string_filter_is_no_filter [of "[]" None None None None None small_store "''zookeeper''" 2 1]
  show ?thesis by simp
qed

section \<open>Counting and paging\<close>

lemma update_conds:
  "(k', c') \<in> set (AList.update k c q) \<Longrightarrow> (k', c') = (k, c) \<or> (k', c') \<in> set q"
  by (induction q) (auto split: if_splits)

lemma put_filter_conds:
  "(k', c') \<in> set (put_filter key arg conv q) \<Longrightarrow> (\<exists>v. c' = CEq v) \<or> (k', c') \<in> set q"
  by (auto simp: put_filter_def split: option.splits if_splits dest: update_conds)

lemma fetch_query_conds:
  "(k, c) \<in> set (fetch_query ids st pr it a r) \<Longrightarrow> cond_error eng c = None"
  unfolding fetch_query_def Let_def
  by (auto dest!: put_filter_conds)

lemma count_query_conds:
  "(k, c) \<in> set (count_query ids st pr it a r) \<Longrightarrow> cond_error eng c = None"
  unfolding count_query_def Let_def
  by (auto dest!: put_filter_conds)

lemma assignees_query_conds:
  "(k, c) \<in> set (assignees_query ids st pr it r) \<Longrightarrow> cond_error eng c = None"
  unfolding assignees_query_def Let_def
  by (auto dest!: put_filter_conds)

lemma no_query_errors:
  "\<forall>kc \<in> set q. cond_error eng (snd kc) = None \<Longrightarrow> query_errors eng (QFields q) = []"
  by (induction q) (auto simp: case_prod_unfold)

lemma find_docs_issues:
  assumes "\<And>k c. (k, c) \<in> set q \<Longrightarrow> cond_error (regex_search db) c = None"
  shows "find_docs db ''issue'' (QFields q) = Inr (filtered_issues db q)"
proof -
  from assms have "\<forall>kc \<in> set q. cond_error (regex_search db) (snd kc) = None" by auto
  then have "query_errors (regex_search db) (QFields q) = []" by (rule no_query_errors)
  then show ?thesis by (simp add: find_docs_def filtered_issues_def)
qed

lemma fetch_query_is_count_query:
  "fetch_query ids st pr it a r = count_query ids st pr it a r"
  by (simp add: fetch_query_def count_query_def)

lemma fetch_resolved:
  assumes "project_present db pn"
  shows "fetch_project_issues db pn st pr it a r page page_size =
     (if (page - 1) * page_size < 0 then Error ''skip must be >= 0''
      else if 2 ^ 63 \<le> (page - 1) * page_size \<or> 2 ^ 63 \<le> \<bar>page_size\<bar>
      then Error ''MongoDB can only handle up to 8-byte ints''
      else IssuesPage
             (BList (map (\<lambda>d. serialize_mongo_doc (BDoc d))
                (limit_docs page_size (drop (nat ((page - 1) * page_size))
                    (filtered_issues db (fetch_query (project_systems db pn) st pr it a r))))))
             page page_size
             (length (filtered_issues db (fetch_query (project_systems db pn) st pr it a r))))"
  by (simp add: fetch_project_issues_def resolve_project[OF assms] find_page_def
      count_documents_def find_docs_issues[OF fetch_query_conds] comp_def)

lemma count_resolved:
  assumes "project_present db pn"
  shows "count_issues db pn st pr it a r
           = Count (length (filtered_issues db (count_query (project_systems db pn) st pr it a r)))"
  by (simp add: count_issues_def resolve_project[OF assms] count_documents_def
      find_docs_issues[OF count_query_conds])

text \<open>
  C3. For a project name that is present and identifier filters without white space,
  \<^verbatim>\<open>count_issues\<close> and \<^verbatim>\<open>fetch_project_issues\<close> build the same filter from the same
  arguments, and \<^verbatim>\<open>count_issues\<close> returns the number of issues that the filter selects.
  \<^verbatim>\<open>fetch_project_issues\<close> returns that number as \<^verbatim>\<open>total_count\<close> for every page and page size
  whose skip \<^verbatim>\<open>(page - 1) * page_size\<close> is at least 0 and below \<open>2\<^sup>6\<^sup>3\<close>, the page size being
  below \<open>2\<^sup>6\<^sup>3\<close> in absolute value. With a negative skip it returns the error
  \<^verbatim>\<open>skip must be >= 0\<close>, and with a skip or a page size that does not fit in eight bytes
  the error \<^verbatim>\<open>MongoDB can only handle up to 8-byte ints\<close>; an error result has no
  \<^verbatim>\<open>total_count\<close>.
\<close>

theorem count_is_total_count:
  assumes "project_present db pn" and "no_white_space a" and "no_white_space r"
  shows "fetch_query ids st pr it a r = count_query ids st pr it a r
         \<and> count_issues db pn st pr it a r
             = Count (length (filtered_issues db (count_query (project_systems db pn) st pr it a r)))
         \<and> (0 \<le> (page - 1) * page_size \<and> (page - 1) * page_size < 2 ^ 63
              \<and> \<bar>page_size\<bar> < 2 ^ 63 \<longrightarrow>
             (\<exists>issues. fetch_project_issues db pn st pr it a r page page_size
                = IssuesPage issues page page_size
                    (length (filtered_issues db
                               (count_query (project_systems db pn) st pr it a r)))))
         \<and> ((page - 1) * page_size < 0 \<longrightarrow>
               fetch_project_issues db pn st pr it a r page page_size
                 = Error ''skip must be >= 0'')
         \<and> (0 \<le> (page - 1) * page_size
              \<and> (2 ^ 63 \<le> (page - 1) * page_size \<or> 2 ^ 63 \<le> \<bar>page_size\<bar>) \<longrightarrow>
               fetch_project_issues db pn st pr it a r page page_size
                 = Error ''MongoDB can only handle up to 8-byte ints'')"
  by (auto simp: fetch_resolved[OF assms(1)] count_resolved[OF assms(1)]
      fetch_query_is_count_query)

lemma small_store_present: "project_present small_store ''zookeeper''"
  by code_simp

lemma no_white_space_examples:
  "no_white_space None" "no_white_space (Some ''5b00000000000000000000d1'')"
  by code_simp+

theorem count_is_total_count_witness:
  "project_present small_store ''zookeeper''
   \<and> no_white_space (Some ''5b00000000000000000000d1'') \<and> no_white_space None
   \<and> (0::int) \<le> (1 - 1) * 50 \<and> ((1::int) - 1) * 50 < 2 ^ 63 \<and> \<bar>50::int\<bar> < 2 ^ 63
   \<and> count_issues small_store ''zookeeper'' (Some ''Resolved'') None None
         (Some ''5b00000000000000000000d1'') None = Count 1
   \<and> fetch_project_issues small_store ''zookeeper'' (Some ''Resolved'') None None
         (Some ''5b00000000000000000000d1'') None 1 50
       = IssuesPage
           (BList [BDoc [(''_id'', BStr ''5b00000000000000000000a4''),
                         (''issue_system_id'', BStr ''5b0000000000000000000002''),
                         (''external_id'', BStr ''ZOOKEEPER-4''), (''title'', BStr ''fourth''),
                         (''status'', BStr ''Resolved''),
                         (''assignee_id'', BStr ''5b00000000000000000000d1'')]])
           1 50 1
   \<and> ((0::int) - 1) * 1 < 0
   \<and> fetch_project_issues small_store ''zookeeper'' (Some ''Open'') None None None None 0 1
       = Error ''skip must be >= 0''
   \<and> (0::int) \<le> (1 - 1) * 2 ^ 63 \<and> (2::int) ^ 63 \<le> \<bar>2 ^ 63\<bar>
   \<and> fetch_project_issues small_store ''zookeeper'' (Some ''Open'') None None None None 1 (2 ^ 63)
       = Error ''MongoDB can only handle up to 8-byte ints''"
proof -
  have c: "count_issues small_store ''zookeeper'' (Some ''Resolved'') None None
         (Some ''5b00000000000000000000d1'') None = Count 1"
    by code_simp
  have f: "fetch_project_issues small_store ''zookeeper'' (Some ''Resolved'') None None
         (Some ''5b00000000000000000000d1'') None 1 50
       = IssuesPage
           (BList [BDoc [(''_id'', BStr ''5b00000000000000000000a4''),
                         (''issue_system_id'', BStr ''5b0000000000000000000002''),
                         (''external_id'', BStr ''ZOOKEEPER-4''), (''title'', BStr ''fourth''),
                         (''status'', BStr ''Resolved''),
                         (''assignee_id'', BStr ''5b00000000000000000000d1'')]])
           1 50 1"
    by code_simp
  from count_is_total_count [OF small_store_present no_white_space_examples(2,1),
      where ids = "[]" and st = "Some ''Resolved''" and pr = None and it = None
        and page = 1 and page_size = 50]
  have "\<exists>issues n. fetch_project_issues small_store ''zookeeper'' (Some ''Resolved'') None None
             (Some ''5b00000000000000000000d1'') None 1 50
           = IssuesPage issues 1 50 n
         \<and> count_issues small_store ''zookeeper'' (Some ''Resolved'') None None
             (Some ''5b00000000000000000000d1'') None = Count n"
    by auto
  moreover
  from count_is_total_count [OF small_store_present no_white_space_examples(1,1),
      where ids = "[]" and st = "Some ''Open''" and pr = None and it = None
        and page = 0 and page_size = 1]
  have "fetch_project_issues small_store ''zookeeper'' (Some ''Open'') None None None None 0 1
          = Error ''skip must be >= 0''"
    by simp
  moreover
  have big: "(0::int) \<le> (1 - 1) * 2 ^ 63 \<and> (2::int) ^ 63 \<le> \<bar>2 ^ 63\<bar>" by simp
  from count_is_total_count [OF small_store_present no_white_space_examples(1,1),
      where ids = "[]" and st = "Some ''Open''" and pr = None and it = None
        and page = 1 and page_size = "2 ^ 63"] big
  have "fetch_project_issues small_store ''zookeeper'' (Some ''Open'') None None None None 1 (2 ^ 63)
          = Error ''MongoDB can only handle up to 8-byte ints''"
    by blast
  ultimately show ?thesis
    using c f small_store_present no_white_space_examples big by simp
qed

theorem count_is_total_count_counterexample:
  "fetch_project_issues small_store ''zookeeper'' None None None None None 0 1
     = Error ''skip must be >= 0''
   \<and> fetch_project_issues small_store ''zookeeper'' None None None None None 2 (- 1)
     = Error ''skip must be >= 0''
   \<and> fetch_project_issues small_store ''zookeeper'' None None None None None 1 (2 ^ 63)
     = Error ''MongoDB can only handle up to 8-byte ints''
   \<and> count_issues small_store ''zookeeper'' None None None None None = Count 4"
  by code_simp

text \<open>
  C7. For a project name that is present, identifier filters without white space and a
  page number of at least 1: with a page size \<open>s\<close> of at least 1, the skip
  \<^verbatim>\<open>(page - 1) * s\<close> and \<open>s\<close> both below \<open>2\<^sup>6\<^sup>3\<close>, \<^verbatim>\<open>fetch_project_issues\<close> returns the
  normalized issues at the offsets \<^verbatim>\<open>(page - 1) * s\<close> to \<^verbatim>\<open>page * s - 1\<close> of the selected
  issues in the store's order, with the number of all selected issues as \<^verbatim>\<open>total_count\<close>;
  for a page past the end the list of issues is empty and \<^verbatim>\<open>total_count\<close> is still that
  number. With the page size 0 there is no limit, and every selected issue is returned
  on every page. With a page size of at least 1, and the skip or the page size at least
  \<open>2\<^sup>6\<^sup>3\<close>, the result is the error \<^verbatim>\<open>MongoDB can only handle up to 8-byte ints\<close>.
\<close>

theorem fetch_page_is_slice:
  assumes "project_present db pn" and "no_white_space a" and "no_white_space r"
    and "1 \<le> page"
  shows "(1 \<le> page_size \<and> (page - 1) * page_size < 2 ^ 63 \<and> page_size < 2 ^ 63 \<longrightarrow>
            fetch_project_issues db pn st pr it a r page page_size
              = IssuesPage
                  (BList (map (\<lambda>d. serialize_mongo_doc (BDoc d))
                     (take (nat page_size) (drop (nat ((page - 1) * page_size))
                        (filtered_issues db (fetch_query (project_systems db pn) st pr it a r))))))
                  page page_size
                  (length (filtered_issues db (fetch_query (project_systems db pn) st pr it a r))))
         \<and> (1 \<le> page_size \<and> (page - 1) * page_size < 2 ^ 63 \<and> page_size < 2 ^ 63
              \<and> length (filtered_issues db (fetch_query (project_systems db pn) st pr it a r))
                   \<le> nat ((page - 1) * page_size) \<longrightarrow>
            fetch_project_issues db pn st pr it a r page page_size
              = IssuesPage (BList []) page page_size
                  (length (filtered_issues db (fetch_query (project_systems db pn) st pr it a r))))
         \<and> (page_size = 0 \<longrightarrow>
            fetch_project_issues db pn st pr it a r page page_size
              = IssuesPage
                  (BList (map (\<lambda>d. serialize_mongo_doc (BDoc d))
                     (filtered_issues db (fetch_query (project_systems db pn) st pr it a r))))
                  page 0
                  (length (filtered_issues db (fetch_query (project_systems db pn) st pr it a r))))
         \<and> (1 \<le> page_size \<and> (2 ^ 63 \<le> (page - 1) * page_size \<or> 2 ^ 63 \<le> page_size) \<longrightarrow>
            fetch_project_issues db pn st pr it a r page page_size
              = Error ''MongoDB can only handle up to 8-byte ints'')"
proof -
  have s: "0 \<le> (page - 1) * page_size" if "0 \<le> page_size"
    using that assms(4) by simp
  show ?thesis
    using s by (auto simp: fetch_resolved[OF assms(1)] limit_docs_def)
qed

lemma small_store_all_issues:
  "length (filtered_issues small_store
             (fetch_query (project_systems small_store ''zookeeper'') None None None None None)) = 4"
  by code_simp

theorem fetch_page_is_slice_witness:
  "project_present small_store ''zookeeper'' \<and> no_white_space None \<and> (1::int) \<le> 2
   \<and> (1::int) \<le> 1 \<and> ((2::int) - 1) * 1 < 2 ^ 63 \<and> (1::int) < 2 ^ 63
   \<and> fetch_project_issues small_store ''zookeeper'' None None None None None 2 1
        = IssuesPage
            (BList [BDoc [(''_id'', BStr ''5b00000000000000000000a2''),
                          (''issue_system_id'', BStr ''5b0000000000000000000002''),
                          (''external_id'', BStr ''ZOOKEEPER-2''), (''title'', BStr ''second''),
                          (''status'', BStr ''Open''), (''assignee_id'', BNull)]])
            2 1 4
   \<and> (1::int) \<le> 5 \<and> ((5::int) - 1) * 1 < 2 ^ 63
   \<and> length (filtered_issues small_store
                (fetch_query (project_systems small_store ''zookeeper'') None None None None None))
         \<le> nat ((5 - 1) * 1)
   \<and> fetch_project_issues small_store ''zookeeper'' None None None None None 5 1
        = IssuesPage (BList []) 5 1 4
   \<and> (1::int) \<le> 1
   \<and> fetch_project_issues small_store ''zookeeper'' (Some ''Resolved'') None None None None 1 0
        = IssuesPage
            (BList [BDoc [(''_id'', BStr ''5b00000000000000000000a4''),
                          (''issue_system_id'', BStr ''5b0000000000000000000002''),
                          (''external_id'', BStr ''ZOOKEEPER-4''), (''title'', BStr ''fourth''),
                          (''status'', BStr ''Resolved''),
                          (''assignee_id'', BStr ''5b00000000000000000000d1'')]])
            1 0 1
   \<and> (1::int) \<le> 2 ^ 63 \<and> (2::int) ^ 63 \<le> 2 ^ 63
   \<and> fetch_project_issues small_store ''zookeeper'' None None None None None 1 (2 ^ 63)
        = Error ''MongoDB can only handle up to 8-byte ints''"
proof -
  have e: "fetch_project_issues small_store ''zookeeper'' None None None None None 2 1
        = IssuesPage
            (BList [BDoc [(''_id'', BStr ''5b00000000000000000000a2''),
                          (''issue_system_id'', BStr ''5b0000000000000000000002''),
                          (''external_id'', BStr ''ZOOKEEPER-2''), (''title'', BStr ''second''),
                          (''status'', BStr ''Open''), (''assignee_id'', BNull)]])
            2 1 4"
    by code_simp
  have z: "fetch_project_issues small_store ''zookeeper'' (Some ''Resolved'') None None None None 1 0
        = IssuesPage
            (BList [BDoc [(''_id'', BStr ''5b00000000000000000000a4''),
                          (''issue_system_id'', BStr ''5b0000000000000000000002''),
                          (''external_id'', BStr ''ZOOKEEPER-4''), (''title'', BStr ''fourth''),
                          (''status'', BStr ''Resolved''),
                          (''assignee_id'', BStr ''5b00000000000000000000d1'')]])
            1 0 1"
    by code_simp
  have two: "(1::int) \<le> 2" and five: "(1::int) \<le> 5" and one: "(1::int) \<le> 1" by simp_all
  from fetch_page_is_slice [OF small_store_present no_white_space_examples(1,1) two,
      where page_size = 1 and st = None and pr = None and it = None]
  have "\<exists>issues n. fetch_project_issues small_store ''zookeeper'' None None None None None 2 1
          = IssuesPage issues 2 1 n"
    by auto
  moreover
  from fetch_page_is_slice [OF small_store_present no_white_space_examples(1,1) five,
      where page_size = 1 and st = None and pr = None and it = None]
    small_store_all_issues
  have "fetch_project_issues small_store ''zookeeper'' None None None None None 5 1
          = IssuesPage (BList []) 5 1 4"
    by simp
  moreover
  from fetch_page_is_slice [OF small_store_present no_white_space_examples(1,1) one,
      where page_size = 0 and st = "Some ''Resolved''" and pr = None and it = None]
  have "\<exists>issues n. fetch_project_issues small_store ''zookeeper'' (Some ''Resolved'') None None None None 1 0
          = IssuesPage issues 1 0 n"
    by auto
  moreover
  have big: "(1::int) \<le> 2 ^ 63 \<and> (2::int) ^ 63 \<le> 2 ^ 63" by simp
  from fetch_page_is_slice [OF small_store_present no_white_space_examples(1,1) one,
      where page_size = "2 ^ 63" and st = None and pr = None and it = None] big
  have "fetch_project_issues small_store ''zookeeper'' None None None None None 1 (2 ^ 63)
          = Error ''MongoDB can only handle up to 8-byte ints''"
    by blast
  ultimately show ?thesis
    using e z small_store_present no_white_space_examples small_store_all_issues big by simp
qed

theorem fetch_page_is_slice_counterexample:
  "fetch_project_issues small_store ''zookeeper'' (Some ''Resolved'') None None None None 1 0
     = IssuesPage
         (BList [BDoc [(''_id'', BStr ''5b00000000000000000000a4''),
                       (''issue_system_id'', BStr ''5b0000000000000000000002''),
                       (''external_id'', BStr ''ZOOKEEPER-4''), (''title'', BStr ''fourth''),
                       (''status'', BStr ''Resolved''),
                       (''assignee_id'', BStr ''5b00000000000000000000d1'')]])
         1 0 1
   \<and> take (nat 0) (drop (nat ((1 - 1) * 0))
         (filtered_issues small_store
            (fetch_query [BOid ''5b0000000000000000000002''] (Some ''Resolved'') None None None None)))
       = []
   \<and> fetch_project_issues small_store ''zookeeper'' None None None None None 1 (2 ^ 63)
     = Error ''MongoDB can only handle up to 8-byte ints''"
  by code_simp

section \<open>The assignees of a project\<close>

lemma project_field_assignee:
  "map_of (project_field ''assignee_id'' d) ''assignee_id'' = map_of d ''assignee_id''"
  by (induction d) (auto simp: project_field_def)

lemma stored_assignees_projected:
  "stored_assignees (map (project_field ''assignee_id'') ds) = stored_assignees ds"
  by (induction ds)
     (auto simp: stored_assignees_def  project_field_assignee split: option.splits)

lemma assignee_id_set_hashable:
  "list_all hashable (stored_assignees issues) \<Longrightarrow>
   assignee_id_set issues members = Inr (foldl set_add members (stored_assignees issues))"
  by (induction issues arbitrary: members)
     (auto simp: stored_assignees_def split: option.splits)

lemma assignee_id_set_unhashable:
  "\<not> list_all hashable (stored_assignees issues) \<Longrightarrow>
   \<exists>v. v \<in> set (stored_assignees issues) \<and> \<not> hashable v
       \<and> assignee_id_set issues members = Inl (TypeError (unhashable_message v))"
  by (induction issues arbitrary: members)
     (auto simp: stored_assignees_def split: option.splits)

lemma unhashable_text:
  "\<not> hashable v \<Longrightarrow>
   unhashable_message v = ''unhashable type: '' @ CHR 0x27 # ''list'' @ [CHR 0x27]
   \<or> unhashable_message v = ''unhashable type: '' @ CHR 0x27 # ''dict'' @ [CHR 0x27]"
  by (cases v) (simp_all add: quoted_def)










lemma assignees_resolved:
  assumes "project_present db pn"
    and "list_all hashable
           (stored_assignees (filtered_issues db (assignees_query (project_systems db pn) st pr it r)))"
  shows "get_project_assignees db pn st pr it r =
     Assignees
       (BList (map serialize_mongo_doc
          (listed db (py_set (stored_assignees
             (filtered_issues db (assignees_query (project_systems db pn) st pr it r)))))))
       (length (listed db (py_set (stored_assignees
             (filtered_issues db (assignees_query (project_systems db pn) st pr it r))))))"
proof -
  let ?sel = "filtered_issues db (assignees_query (project_systems db pn) st pr it r)"
  from assms(2) have "list_all hashable (stored_assignees (map (project_field ''assignee_id'') ?sel))"
    by (simp add: stored_assignees_projected)
  from assignee_id_set_hashable[OF this, of "[]"]
  have "assignee_id_set (map (project_field ''assignee_id'') ?sel) [] = Inr (py_set (stored_assignees ?sel))"
    by (simp add: py_set_def stored_assignees_projected)
  then show ?thesis
    by (simp add: get_project_assignees_def resolve_project[OF assms(1)]
        find_docs_issues[OF assignees_query_conds] Let_def)
qed

lemma assignees_unhashable:
  assumes "project_present db pn"
    and "\<not> list_all hashable
           (stored_assignees (filtered_issues db (assignees_query (project_systems db pn) st pr it r)))"
  shows "get_project_assignees db pn st pr it r
           = Error (''unhashable type: '' @ CHR 0x27 # ''list'' @ [CHR 0x27])
         \<or> get_project_assignees db pn st pr it r
           = Error (''unhashable type: '' @ CHR 0x27 # ''dict'' @ [CHR 0x27])"
proof -
  let ?sel = "filtered_issues db (assignees_query (project_systems db pn) st pr it r)"
  from assms(2) have "\<not> list_all hashable (stored_assignees (map (project_field ''assignee_id'') ?sel))"
    by (simp add: stored_assignees_projected)
  from assignee_id_set_unhashable[OF this, of "[]"] obtain v
    where v: "\<not> hashable v"
      and e: "assignee_id_set (map (project_field ''assignee_id'') ?sel) [] = Inl (TypeError (unhashable_message v))"
    by blast
  have "get_project_assignees db pn st pr it r = Error (unhashable_message v)"
    by (simp add: get_project_assignees_def resolve_project[OF assms(1)]
        find_docs_issues[OF assignees_query_conds] Let_def e)
  with unhashable_text[OF v] show ?thesis by auto
qed





section \<open>The counts of a candidate\<close>

lemma held_is_assigned:
  assumes "plain_assignee d" "truthy a"
  shows "eq_match (map_of d ''assignee_id'') a = assigned_to a d"
proof (cases "map_of d ''assignee_id''")
  case None
  with assms(2) show ?thesis by (auto simp: assigned_to_def)
next
  case (Some v)
  with assms(1) have "hashable v" "plain v" by (simp_all add: plain_assignee_def)
  then show ?thesis using Some by (cases v) (auto simp: assigned_to_def)
qed

lemma plain_pattern_search: "plain_pattern t \<Longrightarrow> regex_search db t ''i'' = Inr (contains_ci t)"
  by (simp add: regex_search_def)

lemma regex_match_text: "regex_match (contains_ci t) x = holds_text t x"
proof (cases x)
  case None
  then show ?thesis by simp
next
  case (Some v)
  have "is_match (contains_ci t) = (\<lambda>x. case x of BStr s \<Rightarrow> contains_ci t s | other \<Rightarrow> False)"
  proof (rule ext)
    fix y show "is_match (contains_ci t) y = (case y of BStr s \<Rightarrow> contains_ci t s | other \<Rightarrow> False)"
      by (cases y) simp_all
  qed
  with Some show ?thesis by (cases v) simp_all
qed

lemma status_resolved:
  "eq_match x (BStr ''Resolved'')
     = (case x of Some (BStr s) \<Rightarrow> s = ''Resolved''
        | Some (BList xs) \<Rightarrow> BStr ''Resolved'' \<in> set xs
        | other \<Rightarrow> False)"
proof (cases x)
  case None
  then show ?thesis by simp
next
  case (Some v)
  then show ?thesis by (cases v) (auto simp: list_ex_iff)
qed

lemma component_query_matches:
  "regex_search db c ''i'' = Inr f \<Longrightarrow>
   matches (regex_search db) (component_query ids a c) d =
     (in_systems ids d \<and> eq_match (map_of d ''assignee_id'') a
      \<and> (regex_match f (map_of d ''component'') \<or> regex_match f (map_of d ''title'')))"
  by (simp add: component_query_def in_systems_def)

lemma keyword_query_matches:
  "regex_search db k ''i'' = Inr f \<Longrightarrow>
   matches (regex_search db) (keyword_query ids a k) d =
     (in_systems ids d \<and> eq_match (map_of d ''assignee_id'') a
      \<and> (regex_match f (map_of d ''title'') \<or> regex_match f (map_of d ''desc'')))"
  by (simp add: keyword_query_def in_systems_def)

lemma resolved_query_matches:
  "matches (regex_search db) (resolved_query ids a) d =
     (in_systems ids d \<and> eq_match (map_of d ''assignee_id'') a
      \<and> eq_match (map_of d ''status'') (BStr ''Resolved''))"
  by (simp add: resolved_query_def in_systems_def)

lemma pattern_query_errors:
  "regex_search db c ''i'' = Inr f \<Longrightarrow> query_errors (regex_search db) (component_query ids a c) = []"
  "regex_search db c ''i'' = Inr f \<Longrightarrow> query_errors (regex_search db) (keyword_query ids a c) = []"
  "regex_search db c ''i'' = Inl e \<Longrightarrow> query_errors (regex_search db) (component_query ids a c) = [e, e]"
  "regex_search db c ''i'' = Inl e \<Longrightarrow> query_errors (regex_search db) (keyword_query ids a c) = [e, e]"
  "query_errors (regex_search db) (resolved_query ids a) = []"
  by (simp_all add: component_query_def keyword_query_def resolved_query_def)

lemma assigned_in_project:
  assumes "list_all plain_assignee (project_issues db pn)" and "truthy a"
    and "d \<in> set (coll db ''issue'')"
  shows "(in_systems (project_systems db pn) d \<and> eq_match (map_of d ''assignee_id'') a \<and> P)
         = (in_systems (project_systems db pn) d \<and> assigned_to a d \<and> P)"
proof (cases "in_systems (project_systems db pn) d")
  case True
  with assms(1,3) have "plain_assignee d"
    by (simp add: project_issues_def list_all_iff)
  from held_is_assigned[OF this assms(2)] show ?thesis by simp
next
  case False
  then show ?thesis by simp
qed

lemma pattern_counts:
  assumes "project_present db pn" and "list_all plain_assignee (project_issues db pn)"
    and "truthy a" and "c \<noteq> []" and "regex_search db c ''i'' = Inr f"
  shows "component_count db pn (Some c) a
           = Inr (length (filter (\<lambda>d. in_systems (project_systems db pn) d \<and> assigned_to a d
                \<and> (regex_match f (map_of d ''component'') \<or> regex_match f (map_of d ''title'')))
                (coll db ''issue'')))"
    and "keyword_count db pn (Some c) a
           = Inr (length (filter (\<lambda>d. in_systems (project_systems db pn) d \<and> assigned_to a d
                \<and> (regex_match f (map_of d ''title'') \<or> regex_match f (map_of d ''desc'')))
                (coll db ''issue'')))"
proof -
  have "filter (matches (regex_search db) (component_query (project_systems db pn) a c)) (coll db ''issue'')
          = filter (\<lambda>d. in_systems (project_systems db pn) d \<and> assigned_to a d
                \<and> (regex_match f (map_of d ''component'') \<or> regex_match f (map_of d ''title'')))
                (coll db ''issue'')"
    by (rule filter_cong[OF refl])
       (simp only: component_query_matches[OF assms(5)] assigned_in_project[OF assms(2,3)])
  then show "component_count db pn (Some c) a
           = Inr (length (filter (\<lambda>d. in_systems (project_systems db pn) d \<and> assigned_to a d
                \<and> (regex_match f (map_of d ''component'') \<or> regex_match f (map_of d ''title'')))
                (coll db ''issue'')))"
    using assms(4)
    by (simp add: component_count_def resolve_project(2)[OF assms(1)] count_documents_def
        find_docs_def pattern_query_errors(1)[OF assms(5)])
  have "filter (matches (regex_search db) (keyword_query (project_systems db pn) a c)) (coll db ''issue'')
          = filter (\<lambda>d. in_systems (project_systems db pn) d \<and> assigned_to a d
                \<and> (regex_match f (map_of d ''title'') \<or> regex_match f (map_of d ''desc'')))
                (coll db ''issue'')"
    by (rule filter_cong[OF refl])
       (simp only: keyword_query_matches[OF assms(5)] assigned_in_project[OF assms(2,3)])
  then show "keyword_count db pn (Some c) a
           = Inr (length (filter (\<lambda>d. in_systems (project_systems db pn) d \<and> assigned_to a d
                \<and> (regex_match f (map_of d ''title'') \<or> regex_match f (map_of d ''desc'')))
                (coll db ''issue'')))"
    using assms(4)
    by (simp add: keyword_count_def resolve_project(2)[OF assms(1)] count_documents_def
        find_docs_def pattern_query_errors(2)[OF assms(5)])
qed

lemma text_counts:
  assumes "project_present db pn" and "list_all plain_assignee (project_issues db pn)"
    and "truthy a" and "t \<noteq> []" and "plain_pattern t"
  shows "component_count db pn (Some t) a
           = Inr (length (issues_matching db (project_systems db pn) a t ''component'' ''title''))"
    and "keyword_count db pn (Some t) a
           = Inr (length (issues_matching db (project_systems db pn) a t ''title'' ''desc''))"
  using pattern_counts[OF assms(1-4) plain_pattern_search[OF assms(5)]]
  by (simp_all add: issues_matching_def regex_match_text)

lemma rejected_counts:
  assumes "project_present db pn" and "c \<noteq> []" and "regex_search db c ''i'' = Inl e"
  shows "component_count db pn (Some c) a = Inl (OperationFailure (fst e) (snd e))"
    and "keyword_count db pn (Some c) a = Inl (OperationFailure (fst e) (snd e))"
  using assms(2)
  by (simp_all add: component_count_def keyword_count_def resolve_project(2)[OF assms(1)]
      count_documents_def find_docs_def pattern_query_errors(3,4)[OF assms(3)])

lemma resolved_count_value:
  assumes "project_present db pn" and "list_all plain_assignee (project_issues db pn)"
    and "truthy a"
  shows "resolved_count db pn a = Inr (length (resolved_matches db (project_systems db pn) a))"
proof -
  have "filter (matches (regex_search db) (resolved_query (project_systems db pn) a)) (coll db ''issue'')
          = resolved_matches db (project_systems db pn) a"
    unfolding resolved_matches_def
    by (rule filter_cong[OF refl])
       (simp only: resolved_query_matches assigned_in_project[OF assms(2,3)] status_resolved)
  then show ?thesis
    by (simp add: resolved_count_def resolve_project(2)[OF assms(1)] count_documents_def
        find_docs_def pattern_query_errors(5))
qed

lemma resolved_count_total:
  assumes "project_present db pn"
  shows "\<exists>n. resolved_count db pn a = Inr n"
  by (simp add: resolved_count_def resolve_project(2)[OF assms(1)] count_documents_def
      find_docs_def pattern_query_errors(5))

lemma absent_counts:
  "component_count db pn None a = Inr 0" "component_count db pn (Some []) a = Inr 0"
  "keyword_count db pn None a = Inr 0" "keyword_count db pn (Some []) a = Inr 0"
  by (simp_all add: component_count_def keyword_count_def)

lemma not_accepted:
  "\<not> accepted db (Some c) \<Longrightarrow> c \<noteq> [] \<and> (\<exists>e. regex_search db c ''i'' = Inl e)"
  by (cases "regex_search db c ''i''") auto

lemma is_accepted:
  "accepted db (Some c) \<Longrightarrow> c \<noteq> [] \<Longrightarrow> \<exists>f. regex_search db c ''i'' = Inr f"
  by (cases "regex_search db c ''i''") auto

lemma expertise_counts_triple:
  assumes "project_present db pn"
  shows "(expertise_counts db pn component kw a = Inr (c, k, r))
         = (component_count db pn component a = Inr c \<and> keyword_count db pn kw a = Inr k
            \<and> resolved_count db pn a = Inr r)"
  using resolved_count_total[OF assms, of a]
  by (auto simp: expertise_counts_def split: sum.splits)

lemma starts_with_ci_iff:
  "starts_with_ci t s = (\<exists>post. map to_lower s = map to_lower t @ post)"
proof (induction t s rule: starts_with_ci.induct)
  case (1 s)
  then show ?case by simp
next
  case (2 p ps)
  then show ?case by simp
next
  case (3 p ps c cs)
  then show ?case by auto
qed

lemma contains_ci_iff:
  "contains_ci t s = (\<exists>pre post. map to_lower s = pre @ map to_lower t @ post)"
proof (induction s)
  case Nil
  then show ?case by (cases t) auto
next
  case (Cons c cs)
  show ?case
  proof
    assume "contains_ci t (c # cs)"
    then consider "starts_with_ci t (c # cs)" | "contains_ci t cs" by auto
    then show "\<exists>pre post. map to_lower (c # cs) = pre @ map to_lower t @ post"
    proof cases
      case 1
      then obtain post where "map to_lower (c # cs) = map to_lower t @ post"
        by (auto simp: starts_with_ci_iff)
      then have "map to_lower (c # cs) = [] @ map to_lower t @ post" by simp
      then show ?thesis by blast
    next
      case 2
      with Cons obtain pre post where "map to_lower cs = pre @ map to_lower t @ post" by blast
      then have "map to_lower (c # cs) = (to_lower c # pre) @ map to_lower t @ post" by simp
      then show ?thesis by blast
    qed
  next
    assume "\<exists>pre post. map to_lower (c # cs) = pre @ map to_lower t @ post"
    then obtain pre post where e: "map to_lower (c # cs) = pre @ map to_lower t @ post" by blast
    show "contains_ci t (c # cs)"
    proof (cases pre)
      case Nil
      with e have "starts_with_ci t (c # cs)" by (auto simp: starts_with_ci_iff)
      then show ?thesis by simp
    next
      case (Cons x pre')
      with e have "map to_lower cs = pre' @ map to_lower t @ post" by simp
      with Cons.IH have "contains_ci t cs" by blast
      then show ?thesis by simp
    qed
  qed
qed

text \<open>
  C2. The counts of a candidate that the loop processes (one that is not null or empty), in
  a project that is present and whose issues store their assignees, where they have one,
  as plain scalars (no native identifier or datetime, no sequence or mapping).
  \<^item> For a \<^verbatim>\<open>component\<close> argument that is not empty and is made of at most 1000 letters,
    digits, spaces and characters \<^verbatim>\<open>_ - / : ,\<close> only, the component count is the number of the project's
    issues assigned to the candidate whose \<^verbatim>\<open>component\<close> or \<^verbatim>\<open>title\<close> holds the argument: the
    field is a string in which the argument occurs, letters compared without regard to
    case, or a sequence with such a string. The count is 0 when the argument is absent or
    empty.
  \<^item> The keyword count is the same over \<^verbatim>\<open>title\<close> and \<^verbatim>\<open>desc\<close> for the \<^verbatim>\<open>keywords\<close> argument.
  \<^item> The resolved count is the number of the project's issues assigned to the candidate
    whose \<^verbatim>\<open>status\<close> is exactly the string \<^verbatim>\<open>Resolved\<close> (or a sequence with that string).
  \<^item> The three counts are produced together: there is a triple of counts exactly when each
    of the three counts is produced.
  \<^item> An argument with other characters is a pattern for the store; when the store rejects
    it, the count is not produced: the query raises \<^verbatim>\<open>OperationFailure\<close>.
  \<^item> A text occurs in a string, without regard to case, when the string in lower case is
    some text, the text in lower case, and some text.
\<close>

theorem counts_of_a_candidate:
  assumes "project_present db pn" and "list_all plain_assignee (project_issues db pn)"
    and "truthy a"
  shows "(tc \<noteq> [] \<and> plain_pattern tc \<longrightarrow>
            component_count db pn (Some tc) a
              = Inr (length (issues_matching db (project_systems db pn) a tc
                               ''component'' ''title'')))
         \<and> component_count db pn None a = Inr 0
         \<and> component_count db pn (Some []) a = Inr 0
         \<and> (tk \<noteq> [] \<and> plain_pattern tk \<longrightarrow>
            keyword_count db pn (Some tk) a
              = Inr (length (issues_matching db (project_systems db pn) a tk
                               ''title'' ''desc'')))
         \<and> keyword_count db pn None a = Inr 0
         \<and> keyword_count db pn (Some []) a = Inr 0
         \<and> resolved_count db pn a = Inr (length (resolved_matches db (project_systems db pn) a))
         \<and> (expertise_counts db pn component kw a = Inr (c, k, r))
             = (component_count db pn component a = Inr c \<and> keyword_count db pn kw a = Inr k
                \<and> resolved_count db pn a = Inr r)
         \<and> (\<not> accepted db (Some p) \<longrightarrow>
              (\<exists>m reply. component_count db pn (Some p) a = Inl (OperationFailure m reply)
                        \<and> keyword_count db pn (Some p) a = Inl (OperationFailure m reply)))
         \<and> contains_ci t s = (\<exists>pre post. map to_lower s = pre @ map to_lower t @ post)"
proof (intro conjI impI)
  assume "tc \<noteq> [] \<and> plain_pattern tc"
  then show "component_count db pn (Some tc) a
              = Inr (length (issues_matching db (project_systems db pn) a tc
                               ''component'' ''title''))"
    using text_counts(1)[OF assms, of tc] by simp
next
  assume "tk \<noteq> [] \<and> plain_pattern tk"
  then show "keyword_count db pn (Some tk) a
              = Inr (length (issues_matching db (project_systems db pn) a tk
                               ''title'' ''desc''))"
    using text_counts(2)[OF assms, of tk] by simp
next
  assume "\<not> accepted db (Some p)"
  from not_accepted[OF this] obtain e where "p \<noteq> []" "regex_search db p ''i'' = Inl e" by blast
  from rejected_counts[OF assms(1) this]
  show "\<exists>m reply. component_count db pn (Some p) a = Inl (OperationFailure m reply)
                 \<and> keyword_count db pn (Some p) a = Inl (OperationFailure m reply)"
    by blast
qed (simp_all add: absent_counts resolved_count_value[OF assms] expertise_counts_triple[OF assms(1)]
       contains_ci_iff)

lemma expertise_store_ok:
  "project_present expertise_store ''zookeeper''"
  "list_all plain_assignee (project_issues expertise_store ''zookeeper'')"
  "plain_pattern ''ui''" "plain_pattern ''crash''"
  "\<not> accepted expertise_store (Some ''('')"
  "accepted expertise_store (Some ''ui'')" "accepted expertise_store (Some ''crash'')"
  by code_simp+

lemma expertise_store_alice:
  "component_count expertise_store ''zookeeper'' (Some ''ui'') (BStr ''alice'') = Inr 3"
  "keyword_count expertise_store ''zookeeper'' (Some ''crash'') (BStr ''alice'') = Inr 0"
  "resolved_count expertise_store ''zookeeper'' (BStr ''alice'') = Inr 1"
  "expertise_counts expertise_store ''zookeeper'' (Some ''ui'') (Some ''crash'') (BStr ''alice'')
     = Inr (3, 0, 1)"
  "map (\<lambda>d. map_of d ''_id'')
     (issues_matching expertise_store (project_systems expertise_store ''zookeeper'') (BStr ''alice'')
        ''ui'' ''component'' ''title'')
     = [Some (BInt 1), Some (BInt 2), Some (BInt 3)]"
  "issues_matching expertise_store (project_systems expertise_store ''zookeeper'') (BStr ''alice'')
        ''crash'' ''title'' ''desc'' = []"
  "map (\<lambda>d. map_of d ''_id'')
     (resolved_matches expertise_store (project_systems expertise_store ''zookeeper'') (BStr ''alice''))
     = [Some (BInt 1)]"
  by code_simp+

theorem counts_of_a_candidate_witness:
  "project_present expertise_store ''zookeeper''
   \<and> list_all plain_assignee (project_issues expertise_store ''zookeeper'')
   \<and> truthy (BStr ''alice'')
   \<and> ''ui'' \<noteq> [] \<and> plain_pattern ''ui'' \<and> ''crash'' \<noteq> [] \<and> plain_pattern ''crash''
   \<and> \<not> accepted expertise_store (Some ''('')
   \<and> component_count expertise_store ''zookeeper'' (Some ''ui'') (BStr ''alice'') = Inr 3
   \<and> map (\<lambda>d. map_of d ''_id'')
       (issues_matching expertise_store (project_systems expertise_store ''zookeeper'')
          (BStr ''alice'') ''ui'' ''component'' ''title'')
       = [Some (BInt 1), Some (BInt 2), Some (BInt 3)]
   \<and> keyword_count expertise_store ''zookeeper'' (Some ''crash'') (BStr ''alice'') = Inr 0
   \<and> resolved_count expertise_store ''zookeeper'' (BStr ''alice'') = Inr 1
   \<and> expertise_counts expertise_store ''zookeeper'' (Some ''ui'') (Some ''crash'') (BStr ''alice'')
       = Inr (3, 0, 1)
   \<and> (\<exists>m reply. component_count expertise_store ''zookeeper'' (Some ''('') (BStr ''alice'')
                   = Inl (OperationFailure m reply))"
proof -
  have t: "truthy (BStr ''alice'')" by simp
  from counts_of_a_candidate [OF expertise_store_ok(1,2) t,
      of "''ui''" "''crash''" "Some ''ui''" "Some ''crash''" 3 0 1 "''(''"]
    expertise_store_ok(5)
  have "\<exists>m reply. component_count expertise_store ''zookeeper'' (Some ''('') (BStr ''alice'')
                   = Inl (OperationFailure m reply)"
    by blast
  then show ?thesis
    using expertise_store_ok expertise_store_alice by simp
qed

theorem counts_of_a_candidate_counterexample:
  "(case expertise_counts paren_store ''zookeeper'' (Some ''('') None (BStr ''dev1'') of
      Inl e \<Rightarrow> True | Inr counts \<Rightarrow> False)
   \<and> map (\<lambda>d. map_of d ''title'')
       (issues_matching paren_store (project_systems paren_store ''zookeeper'') (BStr ''dev1'')
          ''('' ''component'' ''title'')
       = [Some (BStr ''close(fd) fails'')]
   \<and> expertise_counts small_store ''zookeeper'' None None (BStr ''5b00000000000000000000d1'')
       = Inr (0, 0, 0)
   \<and> map (\<lambda>d. map_of d ''external_id'')
       (resolved_matches small_store (project_systems small_store ''zookeeper'')
          (BStr ''5b00000000000000000000d1''))
       = [Some (BStr ''ZOOKEEPER-4'')]"
  by code_simp

text \<open>
  C5. The filters on identifiers, evaluated on the example store. The comment on the
  first issue stores the issue's native identifier; \<^verbatim>\<open>get_issue_comments\<close>, called with the
  string of that identifier, passes the string to the store as it is and finds nothing,
  while \<^verbatim>\<open>get_issue_details\<close> finds the comment. \<^verbatim>\<open>fetch_project_issues\<close> and \<^verbatim>\<open>count_issues\<close>
  convert such a string to the native identifier. \<^verbatim>\<open>analyze_developer_expertise\<close> filters
  by the normalized candidate and so counts no issue of the developer whose identifier is
  stored natively.
\<close>

theorem identifier_filters_evaluated:
  "get_issue_comments small_store ''5b00000000000000000000a1'' = Comments (BList [])
   \<and> get_issue_details small_store ''ZOOKEEPER-1''
       = IssueDetails
           (BDoc [(''_id'', BStr ''5b00000000000000000000a1''),
                  (''issue_system_id'', BStr ''5b0000000000000000000002''),
                  (''external_id'', BStr ''ZOOKEEPER-1''), (''title'', BStr ''abc''),
                  (''status'', BStr ''Open''), (''assignee_id'', BStr ''dev1'')])
           (BList [BDoc [(''_id'', BStr ''5b00000000000000000000c1''),
                         (''issue_id'', BStr ''5b00000000000000000000a1''),
                         (''comment'', BStr ''seen on trunk'')]])
           (BList []) (BList [])
   \<and> fetch_query [BOid ''5b0000000000000000000002''] None None None
         (Some ''5b00000000000000000000d1'') None
       = [(''issue_system_id'', CIn [BOid ''5b0000000000000000000002'']),
          (''assignee_id'', CEq (BOid ''5b00000000000000000000d1''))]
   \<and> count_issues small_store ''zookeeper'' (Some ''Resolved'') None None
         (Some ''5b00000000000000000000d1'') None = Count 1
   \<and> get_project_assignees small_store ''zookeeper'' (Some ''Resolved'') None None None
       = Assignees (BList [BStr ''5b00000000000000000000d1'']) 1
   \<and> analyze_developer_expertise small_store ''zookeeper'' None None = Expertise [] 0"
  by code_simp

section \<open>The ranking\<close>

lemma unfiltered_issues:
  "filtered_issues db (assignees_query (project_systems db pn) None None None None)
     = project_issues db pn"
proof -
  have "matches (regex_search db) (QFields [(''issue_system_id'', CIn ids)]) = in_systems ids" for ids
    by (rule ext) (simp add: in_systems_def)
  then show ?thesis
    by (simp add: filtered_issues_def assignees_query_def put_filter_def project_issues_def)
qed

lemma candidates_resolved:
  assumes "project_present db pn" and "list_all hashable (stored_assignees (project_issues db pn))"
  shows "get_project_assignees db pn None None None None =
     Assignees
       (BList (map serialize_mongo_doc (listed db (py_set (stored_assignees (project_issues db pn))))))
       (length (map serialize_mongo_doc (listed db (py_set (stored_assignees (project_issues db pn))))))"
  using assignees_resolved[OF assms(1), of None None None None] assms(2)
  by (simp add: unfiltered_issues)

lemma candidates_unhashable:
  assumes "project_present db pn" and "\<not> list_all hashable (stored_assignees (project_issues db pn))"
  shows "analyze_developer_expertise db pn component kw
           = Error (''unhashable type: '' @ CHR 0x27 # ''list'' @ [CHR 0x27])
         \<or> analyze_developer_expertise db pn component kw
           = Error (''unhashable type: '' @ CHR 0x27 # ''dict'' @ [CHR 0x27])"
  using assignees_unhashable[OF assms(1), of None None None None] assms(2)
  by (auto simp: unfiltered_issues analyze_developer_expertise_def)

lemma accepted_count:
  assumes "project_present db pn" and "accepted db arg"
  shows "\<exists>n. component_count db pn arg a = Inr n" and "\<exists>n. keyword_count db pn arg a = Inr n"
proof -
  have "(\<exists>n. component_count db pn arg a = Inr n) \<and> (\<exists>n. keyword_count db pn arg a = Inr n)"
  proof (cases arg)
    case None
    then show ?thesis by (simp add: absent_counts)
  next
    case (Some c)
    show ?thesis
    proof (cases "c = []")
      case True
      with Some show ?thesis by (simp add: absent_counts)
    next
      case False
      with Some assms(2) obtain f where f: "regex_search db c ''i'' = Inr f"
        using is_accepted by blast
      with Some False show ?thesis
        by (simp add: component_count_def keyword_count_def resolve_project(2)[OF assms(1)]
            count_documents_def find_docs_def pattern_query_errors(1,2)[OF f])
    qed
  qed
  then show "\<exists>n. component_count db pn arg a = Inr n" and "\<exists>n. keyword_count db pn arg a = Inr n"
    by blast+
qed

lemma accepted_counts:
  assumes "project_present db pn" and "accepted db component" and "accepted db kw"
  shows "\<exists>t. expertise_counts db pn component kw a = Inr t"
proof -
  from accepted_count(1)[OF assms(1,2), of a] obtain c where "component_count db pn component a = Inr c"
    by blast
  moreover from accepted_count(2)[OF assms(1,3), of a] obtain k where "keyword_count db pn kw a = Inr k"
    by blast
  moreover from resolved_count_total[OF assms(1), of a] obtain r where "resolved_count db pn a = Inr r"
    by blast
  ultimately have "expertise_counts db pn component kw a = Inr (c, k, r)"
    by (simp add: expertise_counts_def)
  then show ?thesis by blast
qed

lemma rejected_count:
  assumes "project_present db pn" and "\<not> accepted db arg"
  shows "\<exists>e. component_count db pn arg a = Inl e" and "\<exists>e. keyword_count db pn arg a = Inl e"
proof -
  from assms(2) obtain c where c: "arg = Some c" by (cases arg) auto
  with assms(2) not_accepted[of db c] obtain e where "c \<noteq> []" "regex_search db c ''i'' = Inl e"
    by blast
  from rejected_counts[OF assms(1) this] c
  show "\<exists>e. component_count db pn arg a = Inl e" and "\<exists>e. keyword_count db pn arg a = Inl e"
    by blast+
qed

lemma rejected_expertise_counts:
  assumes "project_present db pn" and "\<not> accepted db component \<or> \<not> accepted db kw"
  shows "\<exists>e. expertise_counts db pn component kw a = Inl e"
proof (cases "accepted db component")
  case False
  from rejected_count(1)[OF assms(1) this, of a] show ?thesis
    by (auto simp: expertise_counts_def)
next
  case True
  with assms(2) have "\<not> accepted db kw" by simp
  from rejected_count(2)[OF assms(1) this, of a] accepted_count(1)[OF assms(1) True, of a]
  show ?thesis
    by (auto simp: expertise_counts_def)
qed

lemma expertise_loop_value:
  assumes "\<forall>a \<in> set candidates. truthy a \<longrightarrow>
             (\<exists>t. expertise_counts db pn component kw a = Inr t)"
  shows "expertise_loop db pn component kw candidates recs =
     Inr (recs @ filter (\<lambda>x. 0 < expertise_score x)
                   (map (entry_of db pn component kw) (filter truthy candidates)))"
  using assms
proof (induction candidates arbitrary: recs)
  case Nil
  then show ?case by simp
next
  case (Cons a rest)
  show ?case
  proof (cases "truthy a")
    case False
    with Cons show ?thesis by simp
  next
    case True
    with Cons.prems obtain c k r where t: "expertise_counts db pn component kw a = Inr (c, k, r)"
      by (metis list.set_intros(1) prod_cases3)
    then have e: "entry_of db pn component kw a = make_recommendation a c k r"
      by (simp add: entry_of_def counts_of_def)
    have s: "expertise_score (make_recommendation a c k r) = c * 2 + k + r"
      by (simp add: make_recommendation_def)
    from Cons.prems have "\<forall>a \<in> set rest. truthy a \<longrightarrow> (\<exists>t. expertise_counts db pn component kw a = Inr t)"
      by simp
    note ih = Cons.IH[OF this]
    show ?thesis using True t e s by (simp add: ih)
  qed
qed

lemma expertise_loop_error:
  assumes "\<And>a. \<exists>e. expertise_counts db pn component kw a = Inl e"
    and "list_ex truthy candidates"
  shows "\<exists>e. expertise_loop db pn component kw candidates recs = Inl e"
  using assms(2)
proof (induction candidates arbitrary: recs)
  case Nil
  then show ?case by simp
next
  case (Cons a rest)
  show ?case
  proof (cases "truthy a")
    case True
    from assms(1)[of a] obtain e where "expertise_counts db pn component kw a = Inl e" by blast
    with True show ?thesis by simp
  next
    case False
    with Cons.prems have "list_ex truthy rest" by simp
    from Cons.IH[OF this] False show ?thesis by simp
  qed
qed

lemma expertise_loop_none:
  "\<not> list_ex truthy candidates \<Longrightarrow> expertise_loop db pn component kw candidates recs = Inr recs"
  by (induction candidates arbitrary: recs) auto

lemma top_recommendations_take: "top_recommendations recs = take 3 recs"
  by (simp add: top_recommendations_def)

lemma entry_score:
  "expertise_score (entry_of db pn component kw a)
     = 2 * component_experience (entry_of db pn component kw a)
       + keyword_experience (entry_of db pn component kw a)
       + resolved_issues (entry_of db pn component kw a)"
  by (cases "counts_of db pn component kw a") (simp add: entry_of_def make_recommendation_def)

lemma entry_counts:
  "expertise_counts db pn component kw a = Inr t \<Longrightarrow>
   t = (component_experience (entry_of db pn component kw a),
        keyword_experience (entry_of db pn component kw a),
        resolved_issues (entry_of db pn component kw a))"
  by (cases t) (simp add: entry_of_def counts_of_def make_recommendation_def)

lemma sorted_by_score:
  "sorted_wrt (\<lambda>x y. expertise_score y \<le> expertise_score x)
     (take n (sort_key (\<lambda>x. - int (expertise_score x)) recs))"
proof -
  have "sorted (map (\<lambda>x. - int (expertise_score x)) (sort_key (\<lambda>x. - int (expertise_score x)) recs))"
    by simp
  then have "sorted_wrt (\<lambda>x y. expertise_score y \<le> expertise_score x)
               (sort_key (\<lambda>x. - int (expertise_score x)) recs)"
    by (simp add: sorted_map)
  then show ?thesis by (rule sorted_wrt_take)
qed

lemma analyze_accepted:
  assumes "project_present db pn"
    and "get_project_assignees db pn None None None None = Assignees (BList candidates) n"
    and "accepted db component" and "accepted db kw"
  shows "analyze_developer_expertise db pn component kw
           = Expertise
               (take 3 (sort_key (\<lambda>x. - int (expertise_score x))
                  (filter (\<lambda>x. 0 < expertise_score x)
                     (map (entry_of db pn component kw) (filter truthy candidates)))))
               (length (filter (\<lambda>x. 0 < expertise_score x)
                     (map (entry_of db pn component kw) (filter truthy candidates))))"
proof -
  have "\<forall>a \<in> set candidates. truthy a \<longrightarrow> (\<exists>t. expertise_counts db pn component kw a = Inr t)"
    using accepted_counts[OF assms(1,3,4)] by blast
  from expertise_loop_value[OF this, of "[]"] show ?thesis
    by (simp add: analyze_developer_expertise_def assms(2) top_recommendations_take
        sort_by_score_def)
qed

lemma analyze_rejected:
  assumes "project_present db pn"
    and "get_project_assignees db pn None None None None = Assignees (BList candidates) n"
    and "list_ex truthy candidates" and "\<not> accepted db component \<or> \<not> accepted db kw"
  shows "\<exists>m. analyze_developer_expertise db pn component kw = Error m"
proof -
  from expertise_loop_error[of db pn component kw candidates "[]", OF _ assms(3)]
    rejected_expertise_counts[OF assms(1,4)]
  obtain e where "expertise_loop db pn component kw candidates [] = Inl e" by blast
  then show ?thesis
    by (simp add: analyze_developer_expertise_def assms(2))
qed

lemma analyze_none:
  assumes "get_project_assignees db pn None None None None = Assignees (BList candidates) n"
    and "\<not> list_ex truthy candidates"
  shows "analyze_developer_expertise db pn component kw = Expertise [] 0"
  by (simp add: analyze_developer_expertise_def assms(1) expertise_loop_none[OF assms(2)]
      top_recommendations_take sort_by_score_def)

lemma counts_listed:
  assumes "project_present db pn" and "accepted db component" and "accepted db kw"
  shows "list_all (\<lambda>a. expertise_counts db pn component kw a
                          = Inr (component_experience (entry_of db pn component kw a),
                                 keyword_experience (entry_of db pn component kw a),
                                 resolved_issues (entry_of db pn component kw a))) xs"
  unfolding list_all_iff
proof
  fix x assume "x \<in> set xs"
  from accepted_counts[OF assms, of x] obtain t where t: "expertise_counts db pn component kw x = Inr t"
    by blast
  from entry_counts[OF t] t
  show "expertise_counts db pn component kw x
          = Inr (component_experience (entry_of db pn component kw x),
                 keyword_experience (entry_of db pn component kw x),
                 resolved_issues (entry_of db pn component kw x))" by simp
qed

lemma scores_listed:
  "list_all (\<lambda>x. expertise_score x = 2 * component_experience x + keyword_experience x
                     + resolved_issues x)
     (map (entry_of db pn component kw) xs)"
  by (simp add: list_all_iff entry_score)

text \<open>
  C1. For a project name that is present.
  \<^item> When every \<^verbatim>\<open>assignee_id\<close> stored by the project's issues is a scalar, the candidates
    are the assignees that \<^verbatim>\<open>get_project_assignees\<close> returns for the project without
    filters, and:
    \<^item> with arguments that the store accepts as patterns, \<^verbatim>\<open>analyze_developer_expertise\<close>
      makes one entry for each candidate that is not null or empty, with the three counts
      of the candidate and the score
      \<^verbatim>\<open>2 * component_experience + keyword_experience + resolved_issues\<close>; it drops the entries
      of score 0, sorts the others by falling score (entries of equal score stay in the
      order of the candidates), returns the first three as recommendations, and returns
      as \<^verbatim>\<open>total_candidates\<close> the number of all entries with a score above 0;
    \<^item> with an argument that the store rejects as a pattern and a candidate that is not
      null or empty, the result is an error;
    \<^item> with no candidate that is not null or empty, the result is no recommendation and
      \<^verbatim>\<open>total_candidates\<close> 0, whatever the arguments are.
  \<^item> When an issue of the project stores a sequence or a mapping as \<^verbatim>\<open>assignee_id\<close>, the
    result is the error \<^verbatim>\<open>unhashable type: 'list'\<close> or \<^verbatim>\<open>unhashable type: 'dict'\<close>.
\<close>

theorem expertise_ranking:
  assumes "project_present db pn"
  shows "(list_all hashable (stored_assignees (project_issues db pn)) \<longrightarrow>
           (\<exists>candidates.
              get_project_assignees db pn None None None None
                = Assignees (BList candidates) (length candidates)
              \<and> (accepted db component \<and> accepted db kw \<longrightarrow>
                   (let entries = map (entry_of db pn component kw) (filter truthy candidates);
                        qualified = filter (\<lambda>x. 0 < expertise_score x) entries
                    in analyze_developer_expertise db pn component kw
                         = Expertise (take 3 (sort_key (\<lambda>x. - int (expertise_score x)) qualified))
                             (length qualified)
                       \<and> sorted_wrt (\<lambda>x y. expertise_score y \<le> expertise_score x)
                            (take 3 (sort_key (\<lambda>x. - int (expertise_score x)) qualified))
                       \<and> list_all (\<lambda>a. expertise_counts db pn component kw a
                                          = Inr (component_experience (entry_of db pn component kw a),
                                                 keyword_experience (entry_of db pn component kw a),
                                                 resolved_issues (entry_of db pn component kw a)))
                            (filter truthy candidates)
                       \<and> list_all (\<lambda>x. expertise_score x
                                          = 2 * component_experience x + keyword_experience x
                                            + resolved_issues x) entries))
              \<and> (list_ex truthy candidates \<and> (\<not> accepted db component \<or> \<not> accepted db kw) \<longrightarrow>
                   (\<exists>m. analyze_developer_expertise db pn component kw = Error m))
              \<and> (\<not> list_ex truthy candidates \<longrightarrow>
                   analyze_developer_expertise db pn component kw = Expertise [] 0)))
         \<and> (\<not> list_all hashable (stored_assignees (project_issues db pn)) \<longrightarrow>
               analyze_developer_expertise db pn component kw
                 = Error (''unhashable type: '' @ CHR 0x27 # ''list'' @ [CHR 0x27])
               \<or> analyze_developer_expertise db pn component kw
                 = Error (''unhashable type: '' @ CHR 0x27 # ''dict'' @ [CHR 0x27]))"
proof (intro conjI impI)
  assume h: "list_all hashable (stored_assignees (project_issues db pn))"
  let ?candidates = "map serialize_mongo_doc (listed db (py_set (stored_assignees (project_issues db pn))))"
  note g = candidates_resolved[OF assms h]
  have a: "accepted db component \<and> accepted db kw \<longrightarrow>
             (let entries = map (entry_of db pn component kw) (filter truthy ?candidates);
                  qualified = filter (\<lambda>x. 0 < expertise_score x) entries
              in analyze_developer_expertise db pn component kw
                   = Expertise (take 3 (sort_key (\<lambda>x. - int (expertise_score x)) qualified))
                       (length qualified)
                 \<and> sorted_wrt (\<lambda>x y. expertise_score y \<le> expertise_score x)
                      (take 3 (sort_key (\<lambda>x. - int (expertise_score x)) qualified))
                 \<and> list_all (\<lambda>a. expertise_counts db pn component kw a
                                    = Inr (component_experience (entry_of db pn component kw a),
                                           keyword_experience (entry_of db pn component kw a),
                                           resolved_issues (entry_of db pn component kw a)))
                      (filter truthy ?candidates)
                 \<and> list_all (\<lambda>x. expertise_score x
                                    = 2 * component_experience x + keyword_experience x
                                      + resolved_issues x) entries)"
  proof
    assume acc: "accepted db component \<and> accepted db kw"
    then have c: "accepted db component" and k: "accepted db kw" by simp_all
    show "let entries = map (entry_of db pn component kw) (filter truthy ?candidates);
                  qualified = filter (\<lambda>x. 0 < expertise_score x) entries
              in analyze_developer_expertise db pn component kw
                   = Expertise (take 3 (sort_key (\<lambda>x. - int (expertise_score x)) qualified))
                       (length qualified)
                 \<and> sorted_wrt (\<lambda>x y. expertise_score y \<le> expertise_score x)
                      (take 3 (sort_key (\<lambda>x. - int (expertise_score x)) qualified))
                 \<and> list_all (\<lambda>a. expertise_counts db pn component kw a
                                    = Inr (component_experience (entry_of db pn component kw a),
                                           keyword_experience (entry_of db pn component kw a),
                                           resolved_issues (entry_of db pn component kw a)))
                      (filter truthy ?candidates)
                 \<and> list_all (\<lambda>x. expertise_score x
                                    = 2 * component_experience x + keyword_experience x
                                      + resolved_issues x) entries"
      unfolding Let_def
      using analyze_accepted[OF assms g c k] sorted_by_score counts_listed[OF assms c k]
        scores_listed
      by (intro conjI) blast+
  qed
  have r: "list_ex truthy ?candidates \<and> (\<not> accepted db component \<or> \<not> accepted db kw) \<longrightarrow>
             (\<exists>m. analyze_developer_expertise db pn component kw = Error m)"
    using analyze_rejected[OF assms g] by blast
  have n: "\<not> list_ex truthy ?candidates \<longrightarrow>
             analyze_developer_expertise db pn component kw = Expertise [] 0"
    using analyze_none[OF g] by blast
  from g a r n
  show "\<exists>candidates.
              get_project_assignees db pn None None None None
                = Assignees (BList candidates) (length candidates)
              \<and> (accepted db component \<and> accepted db kw \<longrightarrow>
                   (let entries = map (entry_of db pn component kw) (filter truthy candidates);
                        qualified = filter (\<lambda>x. 0 < expertise_score x) entries
                    in analyze_developer_expertise db pn component kw
                         = Expertise (take 3 (sort_key (\<lambda>x. - int (expertise_score x)) qualified))
                             (length qualified)
                       \<and> sorted_wrt (\<lambda>x y. expertise_score y \<le> expertise_score x)
                            (take 3 (sort_key (\<lambda>x. - int (expertise_score x)) qualified))
                       \<and> list_all (\<lambda>a. expertise_counts db pn component kw a
                                          = Inr (component_experience (entry_of db pn component kw a),
                                                 keyword_experience (entry_of db pn component kw a),
                                                 resolved_issues (entry_of db pn component kw a)))
                            (filter truthy candidates)
                       \<and> list_all (\<lambda>x. expertise_score x
                                          = 2 * component_experience x + keyword_experience x
                                            + resolved_issues x) entries))
              \<and> (list_ex truthy candidates \<and> (\<not> accepted db component \<or> \<not> accepted db kw) \<longrightarrow>
                   (\<exists>m. analyze_developer_expertise db pn component kw = Error m))
              \<and> (\<not> list_ex truthy candidates \<longrightarrow>
                   analyze_developer_expertise db pn component kw = Expertise [] 0)"
    by (intro exI[of _ ?candidates] conjI)
next
  assume "\<not> list_all hashable (stored_assignees (project_issues db pn))"
  from candidates_unhashable[OF assms this]
  show "analyze_developer_expertise db pn component kw
                 = Error (''unhashable type: '' @ CHR 0x27 # ''list'' @ [CHR 0x27])
               \<or> analyze_developer_expertise db pn component kw
                 = Error (''unhashable type: '' @ CHR 0x27 # ''dict'' @ [CHR 0x27])" .
qed

lemma expertise_example:
  "analyze_developer_expertise expertise_store ''zookeeper'' (Some ''ui'') (Some ''crash'') =
     Expertise [entry ''alice'' ''Dev-lice'' 7 3 0 1, entry ''carol'' ''Dev-arol'' 4 1 1 1,
                entry ''bob'' ''Dev-bob'' 3 0 2 1] 3"
  by code_simp

lemma expertise_example_entries:
  "entry_of expertise_store ''zookeeper'' (Some ''ui'') (Some ''crash'') (BStr ''alice'')
     = entry ''alice'' ''Dev-lice'' 7 3 0 1"
  "entry_of expertise_store ''zookeeper'' (Some ''ui'') (Some ''crash'') (BStr ''bob'')
     = entry ''bob'' ''Dev-bob'' 3 0 2 1"
  "entry_of expertise_store ''zookeeper'' (Some ''ui'') (Some ''crash'') (BStr ''carol'')
     = entry ''carol'' ''Dev-arol'' 4 1 1 1"
  by code_simp+

lemma expertise_example_candidates:
  "list_all hashable (stored_assignees (project_issues expertise_store ''zookeeper''))"
  "list_ex truthy
     (assignees_of (get_project_assignees expertise_store ''zookeeper'' None None None None))"
  by code_simp+

lemma unassigned_example:
  "project_present unassigned_store ''zookeeper''"
  "list_all hashable (stored_assignees (project_issues unassigned_store ''zookeeper''))"
  "\<not> list_ex truthy
       (assignees_of (get_project_assignees unassigned_store ''zookeeper'' None None None None))"
  "\<not> accepted unassigned_store (Some ''('')"
  by code_simp+

lemma array_example:
  "project_present array_store ''zookeeper''"
  "\<not> list_all hashable (stored_assignees (project_issues array_store ''zookeeper''))"
  by code_simp+

theorem expertise_ranking_witness:
  "project_present expertise_store ''zookeeper''
   \<and> list_all hashable (stored_assignees (project_issues expertise_store ''zookeeper''))
   \<and> accepted expertise_store (Some ''ui'') \<and> accepted expertise_store (Some ''crash'')
   \<and> entry_of expertise_store ''zookeeper'' (Some ''ui'') (Some ''crash'') (BStr ''alice'')
       = entry ''alice'' ''Dev-lice'' 7 3 0 1
   \<and> entry_of expertise_store ''zookeeper'' (Some ''ui'') (Some ''crash'') (BStr ''bob'')
       = entry ''bob'' ''Dev-bob'' 3 0 2 1
   \<and> entry_of expertise_store ''zookeeper'' (Some ''ui'') (Some ''crash'') (BStr ''carol'')
       = entry ''carol'' ''Dev-arol'' 4 1 1 1
   \<and> analyze_developer_expertise expertise_store ''zookeeper'' (Some ''ui'') (Some ''crash'')
       = Expertise [entry ''alice'' ''Dev-lice'' 7 3 0 1, entry ''carol'' ''Dev-arol'' 4 1 1 1,
                    entry ''bob'' ''Dev-bob'' 3 0 2 1] 3
   \<and> \<not> accepted expertise_store (Some ''('')
   \<and> list_ex truthy
        (assignees_of (get_project_assignees expertise_store ''zookeeper'' None None None None))
   \<and> (\<exists>m. analyze_developer_expertise expertise_store ''zookeeper'' (Some ''('') None = Error m)
   \<and> project_present unassigned_store ''zookeeper''
   \<and> list_all hashable (stored_assignees (project_issues unassigned_store ''zookeeper''))
   \<and> \<not> list_ex truthy
         (assignees_of (get_project_assignees unassigned_store ''zookeeper'' None None None None))
   \<and> analyze_developer_expertise unassigned_store ''zookeeper'' (Some ''('') None = Expertise [] 0
   \<and> project_present array_store ''zookeeper''
   \<and> \<not> list_all hashable (stored_assignees (project_issues array_store ''zookeeper''))
   \<and> (analyze_developer_expertise array_store ''zookeeper'' None None
         = Error (''unhashable type: '' @ CHR 0x27 # ''list'' @ [CHR 0x27])
       \<or> analyze_developer_expertise array_store ''zookeeper'' None None
         = Error (''unhashable type: '' @ CHR 0x27 # ''dict'' @ [CHR 0x27]))"
proof -
  from expertise_ranking [OF expertise_store_ok(1), of "Some ''(''" None]
    expertise_example_candidates(1)
  obtain candidates where
    g: "get_project_assignees expertise_store ''zookeeper'' None None None None
          = Assignees (BList candidates) (length candidates)"
    and r: "list_ex truthy candidates
            \<and> (\<not> accepted expertise_store (Some ''('') \<or> \<not> accepted expertise_store None) \<longrightarrow>
            (\<exists>m. analyze_developer_expertise expertise_store ''zookeeper'' (Some ''('') None = Error m)"
    by blast
  from g expertise_example_candidates(2) have "list_ex truthy candidates" by simp
  with r expertise_store_ok(5)
  have rejected: "\<exists>m. analyze_developer_expertise expertise_store ''zookeeper'' (Some ''('') None = Error m"
    by blast
  from expertise_ranking [OF unassigned_example(1), of "Some ''(''" None] unassigned_example(2)
  obtain candidates' where
    g': "get_project_assignees unassigned_store ''zookeeper'' None None None None
          = Assignees (BList candidates') (length candidates')"
    and n: "\<not> list_ex truthy candidates' \<longrightarrow>
            analyze_developer_expertise unassigned_store ''zookeeper'' (Some ''('') None = Expertise [] 0"
    by blast
  from g' unassigned_example(3) have "\<not> list_ex truthy candidates'" by simp
  with n have none: "analyze_developer_expertise unassigned_store ''zookeeper'' (Some ''('') None
                       = Expertise [] 0"
    by blast
  from expertise_ranking [OF array_example(1), of None None] array_example(2)
  have unhashable: "analyze_developer_expertise array_store ''zookeeper'' None None
         = Error (''unhashable type: '' @ CHR 0x27 # ''list'' @ [CHR 0x27])
       \<or> analyze_developer_expertise array_store ''zookeeper'' None None
         = Error (''unhashable type: '' @ CHR 0x27 # ''dict'' @ [CHR 0x27])"
    by blast
  from expertise_ranking [OF expertise_store_ok(1), of "Some ''ui''" "Some ''crash''"]
    expertise_example_candidates(1)
  have "\<exists>candidates. get_project_assignees expertise_store ''zookeeper'' None None None None
          = Assignees (BList candidates) (length candidates)"
    by blast
  with rejected none unhashable show ?thesis
    using expertise_store_ok expertise_example expertise_example_entries
      expertise_example_candidates unassigned_example array_example
    by simp
qed

theorem expertise_ranking_counterexample:
  "project_present expertise_store ''zookeeper''
   \<and> is_error (analyze_developer_expertise expertise_store ''zookeeper'' (Some ''('') None)
   \<and> project_present array_store ''zookeeper''
   \<and> analyze_developer_expertise array_store ''zookeeper'' None None
       = Error (''unhashable type: '' @ CHR 0x27 # ''list'' @ [CHR 0x27])"
  by code_simp

section \<open>Routing a batch\<close>

lemma route_unsupported:
  "func_name \<notin> set catalog \<Longrightarrow> route conn func_name args = Inr (Error ''Unsupported function call.'')"
  by (simp add: route_def catalog_def)

lemma handle_unsupported:
  "function_name tc \<notin> set catalog \<Longrightarrow> loads (arguments tc) = Inr args \<Longrightarrow>
   handle_tool_call loads dumps conn tc
     = Inr \<lparr> tool_call_id = call_id tc, output_text = dumps (Error ''Unsupported function call.'') \<rparr>"
  by (simp add: handle_tool_call_def route_unsupported)

lemma collect_outputs_all:
  assumes "\<forall>tc \<in> set calls. \<exists>out. handle_tool_call loads dumps conn tc = Inr out"
  shows "\<exists>outs'. collect_outputs loads dumps conn calls outs = Inr (outs @ outs')
           \<and> map (handle_tool_call loads dumps conn) calls = map Inr outs'"
  using assms
proof (induction calls arbitrary: outs)
  case Nil
  then show ?case by simp
next
  case (Cons tc tcs)
  then obtain out where o: "handle_tool_call loads dumps conn tc = Inr out" by auto
  from Cons.prems have "\<forall>tc \<in> set tcs. \<exists>out. handle_tool_call loads dumps conn tc = Inr out"
    by simp
  from Cons.IH[OF this, of "outs @ [out]"] obtain rest
    where r: "collect_outputs loads dumps conn tcs (outs @ [out]) = Inr ((outs @ [out]) @ rest)"
      and m: "map (handle_tool_call loads dumps conn) tcs = map Inr rest" by blast
  show ?case
    by (rule exI[of _ "out # rest"]) (simp add: o r m)
qed

text \<open>
  C9. In a batch in which the arguments of every call with an unknown name decode, and no
  call with a known name raises, the router handles every call: the handler receives one
  output per call, in the order of the calls, each the output of its own call, and a call
  whose name is not one of the seven is answered with the text of
  \<^verbatim>\<open>{"error": "Unsupported function call."}\<close> whatever its arguments hold. (The arguments
  are decoded before the name is examined, and an exception leaves the loop: see the
  counterexample.)
\<close>

theorem unsupported_call_in_a_batch:
  assumes "\<forall>tc \<in> set calls. function_name tc \<notin> set catalog \<longrightarrow>
             (\<exists>args. loads (arguments tc) = Inr args)"
    and "\<forall>tc \<in> set calls. function_name tc \<in> set catalog \<longrightarrow>
             (\<exists>out. handle_tool_call loads dumps conn tc = Inr out)"
  shows "\<exists>outs.
           handle_requires_action loads dumps conn calls h
             = Inr (h\<lparr> tool_outputs := outs, all_tools_done := True \<rparr>)
           \<and> map (handle_tool_call loads dumps conn) calls = map Inr outs
           \<and> (\<forall>tc \<in> set calls. function_name tc \<notin> set catalog \<longrightarrow>
                 route conn (function_name tc) = (\<lambda>args. Inr (Error ''Unsupported function call.''))
                 \<and> handle_tool_call loads dumps conn tc
                   = Inr \<lparr> tool_call_id = call_id tc,
                           output_text = dumps (Error ''Unsupported function call.'') \<rparr>)"
proof -
  have u: "handle_tool_call loads dumps conn tc
             = Inr \<lparr> tool_call_id = call_id tc,
                     output_text = dumps (Error ''Unsupported function call.'') \<rparr>"
    if "tc \<in> set calls" "function_name tc \<notin> set catalog" for tc
    using that assms(1) handle_unsupported by blast
  have "\<forall>tc \<in> set calls. \<exists>out. handle_tool_call loads dumps conn tc = Inr out"
    using u assms(2) by blast
  from collect_outputs_all[OF this, of "[]"] obtain outs
    where c: "collect_outputs loads dumps conn calls [] = Inr outs"
      and m: "map (handle_tool_call loads dumps conn) calls = map Inr outs" by auto
  have r: "route conn (function_name tc) = (\<lambda>args. Inr (Error ''Unsupported function call.''))"
    if "function_name tc \<notin> set catalog" for tc
    using that by (intro ext) (simp add: route_unsupported)
  show ?thesis
    by (rule exI[of _ outs]) (simp add: handle_requires_action_def c m u r)
qed

lemma example_batch:
  "handle_requires_action example_loads example_dumps (fixed_connector (Count 4))
      [unknown_call, count_call] new_handler
     = Inr (new_handler\<lparr> tool_outputs :=
              [\<lparr> tool_call_id = ''call_1'',
                 output_text = ''{'' @ json_string ''error'' @ '': ''
                                 @ json_string ''Unsupported function call.'' @ ''}'' \<rparr>,
               \<lparr> tool_call_id = ''call_2'',
                 output_text = ''{'' @ json_string ''count'' @ '': 4}'' \<rparr>],
              all_tools_done := True \<rparr>)"
  by code_simp

lemma example_batch_premises:
  "\<forall>tc \<in> set [unknown_call, count_call]. function_name tc \<notin> set catalog \<longrightarrow>
      (\<exists>args. example_loads (arguments tc) = Inr args)"
  "\<forall>tc \<in> set [unknown_call, count_call]. function_name tc \<in> set catalog \<longrightarrow>
      (\<exists>out. handle_tool_call example_loads example_dumps (fixed_connector (Count 4)) tc = Inr out)"
  by (simp_all add: unknown_call_def count_call_def catalog_def example_loads_def
      zookeeper_arguments_def json_string_def handle_tool_call_def route_def subscript_def
      fixed_connector_def)

theorem unsupported_call_in_a_batch_witness:
  "function_name unknown_call \<notin> set catalog \<and> function_name count_call \<in> set catalog
   \<and> handle_requires_action example_loads example_dumps (fixed_connector (Count 4))
        [unknown_call, count_call] new_handler
     = Inr (new_handler\<lparr> tool_outputs :=
              [\<lparr> tool_call_id = ''call_1'',
                 output_text = ''{'' @ json_string ''error'' @ '': ''
                                 @ json_string ''Unsupported function call.'' @ ''}'' \<rparr>,
               \<lparr> tool_call_id = ''call_2'',
                 output_text = ''{'' @ json_string ''count'' @ '': 4}'' \<rparr>],
              all_tools_done := True \<rparr>)"
proof -
  from unsupported_call_in_a_batch [OF example_batch_premises, of new_handler]
  have "\<exists>outs. handle_requires_action example_loads example_dumps (fixed_connector (Count 4))
                  [unknown_call, count_call] new_handler
                = Inr (new_handler\<lparr> tool_outputs := outs, all_tools_done := True \<rparr>)"
    by blast
  then show ?thesis
    using example_batch by (simp add: unknown_call_def count_call_def catalog_def)
qed

theorem unsupported_call_in_a_batch_counterexample:
  "function_name undecodable_call \<notin> set catalog
   \<and> handle_requires_action example_loads example_dumps (fixed_connector (Count 4))
        [undecodable_call, count_call] new_handler
       = Inl (JSONDecodeError ''Expecting value: line 1 column 1 (char 0)'')
   \<and> handle_requires_action example_loads example_dumps (fixed_connector (Count 4))
        [count_call] new_handler
       = Inr (new_handler\<lparr> tool_outputs :=
                [\<lparr> tool_call_id = ''call_2'',
                   output_text = ''{'' @ json_string ''count'' @ '': 4}'' \<rparr>],
                all_tools_done := True \<rparr>)"
  by code_simp

end
